theory Spec2Isabelle
  imports Complex_Main "HOL-Library.Sublist"
begin

section \<open>JavaScript numbers\<close>

text \<open>
  Every number of the source is a JavaScript number, an IEEE 754 double. The handlers
  below branch on \<^verbatim>\<open>isNaN\<close>, \<^verbatim>\<open>===\<close>, \<^verbatim>\<open><\<close>, \<^verbatim>\<open>></\<close> and on truthiness, and they subtract.
  The model keeps \<open>NaN\<close> and the two infinities as values of their own and writes a
  finite double as the real number it denotes. Comparisons of doubles are exact; a
  subtraction is not, and rounds the exact difference to the nearest double.
\<close>

datatype jsnum = NaN | NegInf | Fin real | PosInf

definition isNaN :: "jsnum \<Rightarrow> bool" where
  "isNaN x = (case x of NaN \<Rightarrow> True | _ \<Rightarrow> False)"

text \<open>\<^verbatim>\<open>a === b\<close> on numbers: \<open>NaN\<close> equals nothing, itself included.\<close>

definition strict_eq :: "jsnum \<Rightarrow> jsnum \<Rightarrow> bool" where
  "strict_eq a b = (case a of NaN \<Rightarrow> False | _ \<Rightarrow> (case b of NaN \<Rightarrow> False | _ \<Rightarrow> a = b))"

text \<open>\<^verbatim>\<open>a < b\<close> on numbers: false as soon as one side is \<open>NaN\<close>.\<close>

fun js_lt :: "jsnum \<Rightarrow> jsnum \<Rightarrow> bool" where
  "js_lt NaN _ = False"
| "js_lt _ NaN = False"
| "js_lt NegInf NegInf = False"
| "js_lt NegInf _ = True"
| "js_lt (Fin a) NegInf = False"
| "js_lt (Fin a) (Fin b) = (a < b)"
| "js_lt (Fin a) PosInf = True"
| "js_lt PosInf _ = False"

definition js_gt :: "jsnum \<Rightarrow> jsnum \<Rightarrow> bool" where
  "js_gt a b = js_lt b a"

subsection \<open>Rounding to a double\<close>

text \<open>\<open>pow2 e\<close> is 2 to the power of the integer \<open>e\<close>.\<close>

definition pow2 :: "int \<Rightarrow> real" where
  "pow2 e = (if 0 \<le> e then 2 ^ nat e else 1 / 2 ^ nat (- e))"

text \<open>
  The binary exponent of a positive real: \<open>exponent n x 0\<close> halves or doubles \<open>x\<close>, at
  most \<open>n\<close> times, until it lies in the interval from 1 to 2, and counts.
\<close>

fun exponent :: "nat \<Rightarrow> real \<Rightarrow> int \<Rightarrow> int" where
  "exponent n x e =
     (if n = 0 then e
      else if 2 \<le> x then exponent (n - 1) (x / 2) (e + 1)
      else if x < 1 then exponent (n - 1) (2 * x) (e - 1)
      else e)"

declare exponent.simps [simp del]

text \<open>The nearest integer, the even one of two that are equally near.\<close>

definition rne :: "real \<Rightarrow> int" where
  "rne r =
     (let f = \<lfloor>r\<rfloor>; d = r - of_int f
      in if d < 1 / 2 then f else if 1 / 2 < d then f + 1 else if even f then f else f + 1)"

text \<open>
  The double nearest to a real, ties to even: 53 significant bits, exponents from -1022
  (below which the spacing stays that of the subnormal numbers) to 1023, and an infinity
  when the rounded magnitude reaches 2 to the power 1024. A fuel of 2100 is enough: a
  magnitude below 2 to the power 1024 needs at most 1023 halvings, and a count that
  falls below -1022 is replaced by -1022.
\<close>

definition round_double :: "real \<Rightarrow> jsnum" where
  "round_double x =
     (if x = 0 then Fin 0
      else if pow2 1024 \<le> \<bar>x\<bar> then (if 0 < x then PosInf else NegInf)
      else
        (let e = max (exponent 2100 \<bar>x\<bar> 0) (- 1022);
             ulp = pow2 (e - 52);
             r = of_int (rne (\<bar>x\<bar> / ulp)) * ulp
         in if pow2 1024 \<le> r then (if 0 < x then PosInf else NegInf)
            else Fin (if 0 < x then r else - r)))"

text \<open>A decimal literal of the source, such as \<^verbatim>\<open>9.9\<close>, is the double nearest to it.\<close>

definition double :: "real \<Rightarrow> jsnum" where
  "double x = round_double x"

text \<open>\<^verbatim>\<open>a - b\<close> on numbers: the exact difference of two finite doubles, rounded.\<close>

fun js_sub :: "jsnum \<Rightarrow> jsnum \<Rightarrow> jsnum" where
  "js_sub NaN _ = NaN"
| "js_sub _ NaN = NaN"
| "js_sub PosInf PosInf = NaN"
| "js_sub NegInf NegInf = NaN"
| "js_sub PosInf _ = PosInf"
| "js_sub NegInf _ = NegInf"
| "js_sub (Fin a) PosInf = NegInf"
| "js_sub (Fin a) NegInf = PosInf"
| "js_sub (Fin a) (Fin b) = round_double (a - b)"

text \<open>A number is falsy when it is \<open>0\<close> or \<open>NaN\<close>; \<^verbatim>\<open>x || d\<close> is \<open>d\<close> for a falsy \<open>x\<close>.\<close>

definition truthy :: "jsnum \<Rightarrow> bool" where
  "truthy x = (case x of NaN \<Rightarrow> False | Fin r \<Rightarrow> r \<noteq> 0 | _ \<Rightarrow> True)"

definition js_or :: "jsnum \<Rightarrow> jsnum \<Rightarrow> jsnum" where
  "js_or x d = (if truthy x then x else d)"

text \<open>\<^verbatim>\<open>haystack.includes(needle)\<close> on strings.\<close>

fun str_includes :: "string \<Rightarrow> string \<Rightarrow> bool" where
  "str_includes [] needle = (needle = [])"
| "str_includes (c # cs) needle =
     (if prefix needle (c # cs) then True else str_includes cs needle)"

section \<open>MediaState\<close>

text \<open>
  A \<^verbatim>\<open>TimeRanges\<close> object is the list of its (start, end) pairs;
  \<^verbatim>\<open>new TimeRange(a, b)\<close> is the one-range list.
\<close>

type_synonym TimeRanges = "(jsnum \<times> jsnum) list"

definition TimeRange :: "jsnum \<Rightarrow> jsnum \<Rightarrow> TimeRanges" where
  "TimeRange a b = [(a, b)]"

text \<open>A value caught by \<^verbatim>\<open>catch (e)\<close>, or carried by a failure event.\<close>

datatype thrown = Thrown string

record MediaState =
  paused :: bool
  playing :: bool
  seeking :: bool
  waiting :: bool
  ended :: bool
  started :: bool
  currentTime :: jsnum
  duration :: jsnum
  volume :: jsnum
  muted :: bool
  played :: TimeRanges
  buffered :: TimeRanges
  bufferedAmount :: jsnum
  seekable :: TimeRanges
  seekableAmount :: jsnum
  fullscreen :: bool
  canLoad :: bool
  canLoadPoster :: bool
  canFullscreen :: bool
  canPlay :: bool
  viewType :: string
  mediaType :: string
  live :: bool
  source :: string
  sources :: "string list"
  error :: "string option"
  attemptingAutoplay :: bool
  autoplayError :: "thrown option"
  adStarted :: bool
  adsLoaded :: bool
  adCuePoints :: "jsnum list"
  playedPreroll :: bool

section \<open>Events and the request queue\<close>

text \<open>
  The events the state manager listens to, each with the detail its handler reads. The
  two fullscreen events carry, last, whether \<^verbatim>\<open>event.target\<close> is the provider.
  \<open>AdEnded\<close> is the ad controller's \<^verbatim>\<open>ad-ended\<close> notification, for which the state
  manager registers no listener.
\<close>

datatype MediaEvent =
    ViewTypeChange string
  | CanLoad
  | SourcesChange "string list"
  | SourceChange string
  | MediaTypeChange string
  | LoadStart
  | Abort
  | ErrorEv string
  | LoadedMetadata
  | LoadedData
  | CanPlay jsnum
  | CanPlayThrough jsnum
  | DurationChange jsnum
  | Progress TimeRanges TimeRanges
  | Autoplay
  | AutoplayFail thrown
  | Play
  | PlayFail thrown
  | Playing
  | Pause
  | TimeUpdate jsnum TimeRanges
  | VolumeChange jsnum bool
  | Seeking jsnum
  | Seeked jsnum
  | Waiting
  | Ended
  | AdEnded
  | FullscreenChange bool bool
  | FullscreenErrorEv thrown bool

text \<open>\<^verbatim>\<open>event.type\<close>, the key under which \<^verbatim>\<open>trackedEvents\<close> keeps an event.\<close>

fun event_type :: "MediaEvent \<Rightarrow> string" where
  "event_type (ViewTypeChange _) = ''vds-view-type-change''"
| "event_type CanLoad = ''vds-can-load''"
| "event_type (SourcesChange _) = ''vds-sources-change''"
| "event_type (SourceChange _) = ''vds-source-change''"
| "event_type (MediaTypeChange _) = ''vds-media-type-change''"
| "event_type LoadStart = ''vds-load-start''"
| "event_type Abort = ''vds-abort''"
| "event_type (ErrorEv _) = ''vds-error''"
| "event_type LoadedMetadata = ''vds-loaded-metadata''"
| "event_type LoadedData = ''vds-loaded-data''"
| "event_type (CanPlay _) = ''vds-can-play''"
| "event_type (CanPlayThrough _) = ''vds-can-play-through''"
| "event_type (DurationChange _) = ''vds-duration-change''"
| "event_type (Progress _ _) = ''vds-progress''"
| "event_type Autoplay = ''vds-autoplay''"
| "event_type (AutoplayFail _) = ''vds-autoplay-fail''"
| "event_type Play = ''vds-play''"
| "event_type (PlayFail _) = ''vds-play-fail''"
| "event_type Playing = ''vds-playing''"
| "event_type Pause = ''vds-pause''"
| "event_type (TimeUpdate _ _) = ''vds-time-update''"
| "event_type (VolumeChange _ _) = ''vds-volume-change''"
| "event_type (Seeking _) = ''vds-seeking''"
| "event_type (Seeked _) = ''vds-seeked''"
| "event_type Waiting = ''vds-waiting''"
| "event_type Ended = ''vds-ended''"
| "event_type AdEnded = ''vds-ad-ended''"
| "event_type (FullscreenChange _ _) = ''vds-fullscreen-change''"
| "event_type (FullscreenErrorEv _ _) = ''vds-fullscreen-error''"

text \<open>The request events, each with the detail its handler reads.\<close>

datatype FullscreenTarget = PreferMedia | TargetMedia | TargetProvider

datatype RequestEvent =
    StartLoading
  | MuteRequest
  | UnmuteRequest
  | PlayRequest
  | PauseRequest
  | SeekingRequest jsnum
  | SeekRequest jsnum
  | VolumeChangeRequest jsnum
  | EnterFullscreenRequest "FullscreenTarget option"
  | ExitFullscreenRequest "FullscreenTarget option"
  | ResumeUserIdleRequest
  | PauseUserIdleRequest
  | ShowPosterRequest
  | HidePosterRequest
  | LoopRequest

text \<open>The keys of \<^verbatim>\<open>MediaRequestQueueRecord\<close>.\<close>

datatype Category = load | play | pause | volume_cat | fullscreen_cat | seeked | seeking_cat | userIdle

text \<open>
  Modelled from the spec: the class \<^verbatim>\<open>Queue\<close> (foundation/queue/queue), which is not
  among the sources. One slot per category: enqueueing replaces the occupant, serving
  hands the occupant to a callback and removes it, deleting removes it unserved, a reset
  empties every slot.
\<close>

type_synonym Queue = "Category \<rightharpoonup> RequestEvent"

definition enqueue :: "Category \<Rightarrow> RequestEvent \<Rightarrow> Queue \<Rightarrow> Queue" where
  "enqueue c r q = q(c \<mapsto> r)"

definition serve :: "Category \<Rightarrow> Queue \<Rightarrow> Queue" where
  "serve c q = q(c := None)"

definition delete :: "Category \<Rightarrow> Queue \<Rightarrow> Queue" where
  "delete c q = q(c := None)"

definition reset :: "Queue \<Rightarrow> Queue" where
  "reset q = Map.empty"

section \<open>The state manager\<close>

text \<open>
  The closure variables of \<^verbatim>\<open>useMediaStateManager\<close>, with the store \<^verbatim>\<open>$media\<close>, the
  request manager's three signals and its queue, which the handlers read and write.
  \<open>hasProvider\<close> says that \<^verbatim>\<open>provider\<close> is not null, \<open>listensOnTarget\<close> that the target
  exists and is not the provider, so that the two fullscreen listeners are on it.
  \<open>waitingTimer\<close> says that the
  debounced \<^verbatim>\<open>fireWaitingEvent\<close> is scheduled, \<open>pendingResets\<close> counts the
  \<^verbatim>\<open>setTimeout(() => resetTracking(), 0)\<close> callbacks not yet run, and \<open>ariaBusy\<close> is the
  attribute written on the target.

  \<^verbatim>\<open>appendTriggerEvent\<close> writes the trigger chain into the event object it is given, and
  the callback of \<^verbatim>\<open>satisfyMediaRequest\<close> writes \<^verbatim>\<open>requestEvent\<close> into it: neither
  touches the store, the tracked events or the queue, and the model leaves both out.
\<close>

record StateManager =
  media :: MediaState
  trackedEvents :: "string \<rightharpoonup> MediaEvent"
  requestQueue :: Queue
  isReplay :: bool
  isLooping :: bool
  isSeekingRequest :: bool
  hasProvider :: bool
  listensOnTarget :: bool
  skipInitialSrcChange :: bool
  attachedCanLoadListeners :: bool
  attachedLoadStartListeners :: bool
  attachedCanPlayListeners :: bool
  firingWaiting :: bool
  connected :: bool
  lastWaitingEvent :: "MediaEvent option"
  waitingTimer :: bool
  pendingResets :: nat
  ariaBusy :: bool

text \<open>What a handler does to the event it received and to the provider element.\<close>

datatype Output = StopImmediatePropagation | DispatchEvent string

definition stopWaiting :: "StateManager \<Rightarrow> StateManager" where
  "stopWaiting s = (s\<lparr>waitingTimer := False\<rparr>)\<lparr>media := (media s)\<lparr>waiting := False\<rparr>\<rparr>"

definition resetTracking :: "StateManager \<Rightarrow> StateManager" where
  "resetTracking s =
     (stopWaiting s)\<lparr>isReplay := False, isLooping := False, firingWaiting := False,
       lastWaitingEvent := None, trackedEvents := Map.empty\<rparr>"

definition trackEvent ::
  "(StateManager \<Rightarrow> 'a) \<Rightarrow> MediaEvent \<Rightarrow> StateManager \<Rightarrow> 'a" where
  "trackEvent callback event s =
     callback (s\<lparr>trackedEvents := (trackedEvents s)(event_type event \<mapsto> event)\<rparr>)"

definition satisfyMediaRequest :: "Category \<Rightarrow> StateManager \<Rightarrow> StateManager" where
  "satisfyMediaRequest request s = s\<lparr>requestQueue := serve request (requestQueue s)\<rparr>"

definition attachCanLoadEventListeners :: "StateManager \<Rightarrow> StateManager" where
  "attachCanLoadEventListeners s =
     (if attachedCanLoadListeners s then s else s\<lparr>attachedCanLoadListeners := True\<rparr>)"

definition onMediaTypeChange :: "string \<Rightarrow> StateManager \<Rightarrow> StateManager" where
  "onMediaTypeChange detail s =
     s\<lparr>media := (media s)\<lparr>mediaType := detail, live := str_includes detail ''live''\<rparr>\<rparr>"

definition onViewTypeChange :: "string \<Rightarrow> StateManager \<Rightarrow> StateManager" where
  "onViewTypeChange detail s = s\<lparr>media := (media s)\<lparr>viewType := detail\<rparr>\<rparr>"

definition onCanLoad :: "StateManager \<Rightarrow> StateManager" where
  "onCanLoad s =
     satisfyMediaRequest load
       (attachCanLoadEventListeners (s\<lparr>media := (media s)\<lparr>canLoad := True\<rparr>\<rparr>))"

definition onSourcesChange :: "string list \<Rightarrow> StateManager \<Rightarrow> StateManager" where
  "onSourcesChange detail s = s\<lparr>media := (media s)\<lparr>sources := detail\<rparr>\<rparr>"

text \<open>
  \<^verbatim>\<open>softResetMediaState\<close> is imported from \<^verbatim>\<open>../store\<close>, which is not among the sources:
  the handlers that call it take it as the parameter \<open>softReset\<close>.
\<close>

definition onSourceChange ::
  "(MediaState \<Rightarrow> MediaState) \<Rightarrow> MediaEvent \<Rightarrow> string \<Rightarrow> StateManager \<Rightarrow> StateManager" where
  "onSourceChange softReset event detail s =
     (let s1 = s\<lparr>media := (media s)\<lparr>source := detail\<rparr>, ariaBusy := True\<rparr> in
      if skipInitialSrcChange s1 then s1\<lparr>skipInitialSrcChange := False\<rparr>
      else
        (let s2 = resetTracking s1;
             s3 = s2\<lparr>media := softReset (media s2)\<rparr>
         in s3\<lparr>trackedEvents := (trackedEvents s3)(event_type event \<mapsto> event)\<rparr>))"

definition attachLoadStartEventListeners :: "StateManager \<Rightarrow> StateManager" where
  "attachLoadStartEventListeners s =
     (if attachedLoadStartListeners s then s else s\<lparr>attachedLoadStartListeners := True\<rparr>)"

definition onLoadStart :: "StateManager \<Rightarrow> StateManager" where
  "onLoadStart s = attachLoadStartEventListeners s"

definition onError :: "string \<Rightarrow> StateManager \<Rightarrow> StateManager" where
  "onError detail s = s\<lparr>media := (media s)\<lparr>error := Some detail\<rparr>\<rparr>"

definition attachCanPlayListeners :: "StateManager \<Rightarrow> StateManager" where
  "attachCanPlayListeners s =
     (if attachedCanPlayListeners s then s else s\<lparr>attachedCanPlayListeners := True\<rparr>)"

definition onCanPlay :: "jsnum \<Rightarrow> StateManager \<Rightarrow> StateManager" where
  "onCanPlay detail_duration s =
     (let s1 = attachCanPlayListeners s in
      s1\<lparr>media := (media s1)\<lparr>canPlay := True, duration := detail_duration\<rparr>,
         ariaBusy := False\<rparr>)"

definition onCanPlayThrough :: "jsnum \<Rightarrow> StateManager \<Rightarrow> StateManager" where
  "onCanPlayThrough detail_duration s =
     s\<lparr>media := (media s)\<lparr>canPlay := True, duration := detail_duration\<rparr>\<rparr>"

definition onDurationChange :: "jsnum \<Rightarrow> StateManager \<Rightarrow> StateManager" where
  "onDurationChange detail s =
     s\<lparr>media := (media s)\<lparr>duration := (if \<not> isNaN detail then detail else Fin 0)\<rparr>\<rparr>"

definition onAutoplay :: "StateManager \<Rightarrow> StateManager" where
  "onAutoplay s = s\<lparr>media := (media s)\<lparr>autoplayError := None\<rparr>\<rparr>"

definition onAutoplayFail :: "thrown \<Rightarrow> StateManager \<Rightarrow> StateManager" where
  "onAutoplayFail detail s =
     resetTracking (s\<lparr>media := (media s)\<lparr>autoplayError := Some detail\<rparr>\<rparr>)"

definition onPlay :: "StateManager \<Rightarrow> StateManager \<times> Output list" where
  "onPlay s =
     (if isLooping s \<or> \<not> paused (media s) then (s, [StopImmediatePropagation])
      else
        (let s1 = satisfyMediaRequest play s;
             s2 = s1\<lparr>media := (media s1)\<lparr>paused := False, autoplayError := None\<rparr>\<rparr>
         in if ended (media s2) \<or> isReplay s2
            then (s2\<lparr>isReplay := False, media := (media s2)\<lparr>ended := False\<rparr>\<rparr>,
                  [DispatchEvent ''vds-replay''])
            else (s2, [])))"

definition onPlayFail :: "StateManager \<Rightarrow> StateManager" where
  "onPlayFail s =
     (let s1 = satisfyMediaRequest play s in
      resetTracking (s1\<lparr>media := (media s1)\<lparr>paused := True, playing := False\<rparr>\<rparr>))"

definition onPlaying :: "StateManager \<Rightarrow> StateManager \<times> Output list" where
  "onPlaying s =
     (let s1 = s\<lparr>pendingResets := Suc (pendingResets s)\<rparr>;
          s2 = s1\<lparr>media := (media s1)\<lparr>paused := False, playing := True, seeking := False,
                  ended := False\<rparr>\<rparr>
      in if isLooping s2 then (s2\<lparr>isLooping := False\<rparr>, [StopImmediatePropagation])
         else if \<not> started (media s2)
           then (s2\<lparr>media := (media s2)\<lparr>started := True\<rparr>\<rparr>, [DispatchEvent ''vds-started''])
           else (s2, []))"

definition onPause :: "StateManager \<Rightarrow> StateManager \<times> Output list" where
  "onPause s =
     (if isLooping s then (s, [StopImmediatePropagation])
      else
        (let s1 = satisfyMediaRequest pause s in
         (resetTracking
            (s1\<lparr>media := (media s1)\<lparr>paused := True, playing := False, seeking := False\<rparr>\<rparr>),
          [])))"

definition onTimeUpdate :: "jsnum \<Rightarrow> TimeRanges \<Rightarrow> StateManager \<Rightarrow> StateManager" where
  "onTimeUpdate detail_currentTime detail_played s =
     s\<lparr>media := (media s)\<lparr>currentTime := detail_currentTime, played := detail_played,
          waiting := False\<rparr>\<rparr>"

definition onVolumeChange :: "jsnum \<Rightarrow> bool \<Rightarrow> StateManager \<Rightarrow> StateManager" where
  "onVolumeChange detail_volume detail_muted s =
     satisfyMediaRequest volume_cat
       (s\<lparr>media := (media s)\<lparr>volume := detail_volume,
            muted := (detail_muted \<or> strict_eq detail_volume (Fin 0))\<rparr>\<rparr>)"

definition onSeeking :: "jsnum \<Rightarrow> StateManager \<Rightarrow> StateManager" where
  "onSeeking detail s =
     satisfyMediaRequest seeking_cat
       (s\<lparr>media := (media s)\<lparr>seeking := True, currentTime := detail\<rparr>\<rparr>)"

definition onSeeked :: "jsnum \<Rightarrow> StateManager \<Rightarrow> StateManager \<times> Output list" where
  "onSeeked detail s =
     (if isSeekingRequest s
      then (s\<lparr>media := (media s)\<lparr>seeking := True\<rparr>\<rparr>, [StopImmediatePropagation])
      else if seeking (media s) then
        (let s1 = (if paused (media s) then stopWaiting s else s);
             s2 = s1\<lparr>media := (media s1)\<lparr>seeking := False\<rparr>\<rparr>;
             s3 = (if \<not> strict_eq detail (duration (media s2))
                   then s2\<lparr>media := (media s2)\<lparr>ended := False\<rparr>\<rparr> else s2);
             s4 = s3\<lparr>media := (media s3)\<lparr>currentTime := detail\<rparr>\<rparr>
         in (satisfyMediaRequest seeked s4, []))
      else (s, []))"

text \<open>
  The callback that \<^verbatim>\<open>debounce\<close> runs 300ms after the last call of
  \<^verbatim>\<open>fireWaitingEvent\<close>. It dispatches the new \<^verbatim>\<open>vds-waiting\<close> event on the provider while
  \<^verbatim>\<open>firingWaiting\<close> is set, so that \<^verbatim>\<open>onWaiting\<close>, which then runs for that event,
  returns at once.
\<close>

definition fireWaitingEvent :: "StateManager \<Rightarrow> StateManager \<times> Output list" where
  "fireWaitingEvent s =
     (case lastWaitingEvent s of
        None \<Rightarrow> (s, [])
      | Some _ \<Rightarrow>
          (let s1 = s\<lparr>firingWaiting := True\<rparr>;
               s2 = s1\<lparr>trackedEvents := (trackedEvents s1)(''vds-waiting'' \<mapsto> Waiting)\<rparr>;
               s3 = s2\<lparr>media := (media s2)\<lparr>waiting := True, playing := False\<rparr>\<rparr>
           in (s3\<lparr>lastWaitingEvent := None, firingWaiting := False\<rparr>,
               if hasProvider s3 then [DispatchEvent ''vds-waiting''] else [])))"

definition onWaiting :: "MediaEvent \<Rightarrow> StateManager \<Rightarrow> StateManager \<times> Output list" where
  "onWaiting event s =
     (if firingWaiting s \<or> isSeekingRequest s then (s, [])
      else (s\<lparr>lastWaitingEvent := Some event, waitingTimer := True\<rparr>,
            [StopImmediatePropagation]))"

definition onEnded :: "StateManager \<Rightarrow> StateManager \<times> Output list" where
  "onEnded s =
     (if isLooping s then (s, [StopImmediatePropagation])
      else
        (resetTracking
           (s\<lparr>media := (media s)\<lparr>paused := True, playing := False, seeking := False,
                ended := True\<rparr>\<rparr>),
         []))"

definition onProgress :: "TimeRanges \<Rightarrow> TimeRanges \<Rightarrow> MediaState \<Rightarrow> MediaState" where
  "onProgress detail_buffered detail_seekable m =
     (let bufferedAmount' =
            (if length detail_buffered = 0 then Fin 0 else snd (last detail_buffered));
          seekableAmount' =
            (if length detail_seekable = 0 then Fin 0 else snd (last detail_seekable))
      in m\<lparr>buffered := detail_buffered, bufferedAmount := bufferedAmount',
           seekable := detail_seekable, seekableAmount := seekableAmount'\<rparr>)"

definition onFullscreenChange :: "bool \<Rightarrow> bool \<Rightarrow> StateManager \<Rightarrow> StateManager \<times> Output list" where
  "onFullscreenChange detail fromProvider s =
     (satisfyMediaRequest fullscreen_cat (s\<lparr>media := (media s)\<lparr>fullscreen := detail\<rparr>\<rparr>),
      if \<not> fromProvider then [DispatchEvent ''vds-fullscreen-change''] else [])"

definition onFullscreenError :: "bool \<Rightarrow> StateManager \<Rightarrow> StateManager \<times> Output list" where
  "onFullscreenError fromProvider s =
     (satisfyMediaRequest fullscreen_cat s,
      if \<not> fromProvider then [DispatchEvent ''vds-fullscreen-error''] else [])"

subsection \<open>Dispatch\<close>

text \<open>
  An event reaches a handler only through a listener. The four base listeners are on
  the provider while it is attached; the others are added by the three
  \<^verbatim>\<open>attach...Listeners\<close> functions, and \<^verbatim>\<open>vds-duration-change\<close> has a listener in two
  of the tiers. \<open>quiet\<close> lifts a handler that leaves the event and the provider alone.
  The listener of \<^verbatim>\<open>vds-seeking\<close> is throttled: \<open>Seeking\<close> stands for an occurrence that
  the throttle lets through.
\<close>

definition quiet :: "StateManager \<Rightarrow> StateManager \<times> Output list" where
  "quiet s = (s, [])"

definition handle ::
  "(MediaState \<Rightarrow> MediaState) \<Rightarrow> MediaEvent \<Rightarrow> StateManager \<Rightarrow> StateManager \<times> Output list" where
  "handle softReset event s =
     (case event of
        FullscreenChange detail fromProvider \<Rightarrow>
          if listensOnTarget s then onFullscreenChange detail fromProvider s else quiet s
      | FullscreenErrorEv detail fromProvider \<Rightarrow>
          if listensOnTarget s then onFullscreenError fromProvider s else quiet s
      | _ \<Rightarrow>
      if \<not> hasProvider s then quiet s
      else
        (case event of
           ViewTypeChange detail \<Rightarrow> quiet (onViewTypeChange detail s)
         | CanLoad \<Rightarrow> quiet (trackEvent onCanLoad event s)
         | SourcesChange detail \<Rightarrow> quiet (trackEvent (onSourcesChange detail) event s)
         | SourceChange detail \<Rightarrow>
             quiet (trackEvent (onSourceChange softReset event detail) event s)
         | MediaTypeChange detail \<Rightarrow>
             if attachedCanLoadListeners s then quiet (onMediaTypeChange detail s) else quiet s
         | LoadStart \<Rightarrow>
             if attachedCanLoadListeners s then quiet (trackEvent onLoadStart event s)
             else quiet s
         | Abort \<Rightarrow>
             if attachedCanLoadListeners s then quiet (trackEvent (\<lambda>s. s) event s) else quiet s
         | ErrorEv detail \<Rightarrow>
             if attachedCanLoadListeners s then quiet (trackEvent (onError detail) event s)
             else quiet s
         | LoadedMetadata \<Rightarrow>
             if attachedLoadStartListeners s then quiet (trackEvent (\<lambda>s. s) event s)
             else quiet s
         | LoadedData \<Rightarrow>
             if attachedLoadStartListeners s then quiet (trackEvent (\<lambda>s. s) event s)
             else quiet s
         | CanPlay detail \<Rightarrow>
             if attachedLoadStartListeners s then quiet (trackEvent (onCanPlay detail) event s)
             else quiet s
         | CanPlayThrough detail \<Rightarrow>
             if attachedLoadStartListeners s then quiet (onCanPlayThrough detail s) else quiet s
         | DurationChange detail \<Rightarrow>
             (let s1 = (if attachedLoadStartListeners s then onDurationChange detail s else s);
                  s2 = (if attachedCanPlayListeners s then onDurationChange detail s1 else s1)
              in quiet s2)
         | Progress detail_buffered detail_seekable \<Rightarrow>
             if attachedLoadStartListeners s
             then quiet (s\<lparr>media := onProgress detail_buffered detail_seekable (media s)\<rparr>)
             else quiet s
         | Autoplay \<Rightarrow>
             if attachedCanPlayListeners s then quiet (trackEvent onAutoplay event s)
             else quiet s
         | AutoplayFail detail \<Rightarrow>
             if attachedCanPlayListeners s then quiet (trackEvent (onAutoplayFail detail) event s)
             else quiet s
         | Pause \<Rightarrow> if attachedCanPlayListeners s then trackEvent onPause event s else quiet s
         | Play \<Rightarrow> if attachedCanPlayListeners s then trackEvent onPlay event s else quiet s
         | PlayFail detail \<Rightarrow>
             if attachedCanPlayListeners s then quiet (trackEvent onPlayFail event s)
             else quiet s
         | Playing \<Rightarrow>
             if attachedCanPlayListeners s then trackEvent onPlaying event s else quiet s
         | TimeUpdate detail_currentTime detail_played \<Rightarrow>
             if attachedCanPlayListeners s
             then quiet (onTimeUpdate detail_currentTime detail_played s) else quiet s
         | VolumeChange detail_volume detail_muted \<Rightarrow>
             if attachedCanPlayListeners s
             then quiet (onVolumeChange detail_volume detail_muted s) else quiet s
         | Seeking detail \<Rightarrow>
             if attachedCanPlayListeners s then quiet (trackEvent (onSeeking detail) event s)
             else quiet s
         | Seeked detail \<Rightarrow>
             if attachedCanPlayListeners s then trackEvent (onSeeked detail) event s
             else quiet s
         | Waiting \<Rightarrow> if attachedCanPlayListeners s then onWaiting event s else quiet s
         | Ended \<Rightarrow> if attachedCanPlayListeners s then onEnded s else quiet s
         | _ \<Rightarrow> quiet s))"

text \<open>The two deferred callbacks: the debounce of 300ms and the \<^verbatim>\<open>setTimeout\<close> of 0ms.\<close>

datatype TimerEvent = WaitingDebounce | DeferredReset

definition onTimer :: "TimerEvent \<Rightarrow> StateManager \<Rightarrow> StateManager \<times> Output list" where
  "onTimer t s =
     (case t of
        WaitingDebounce \<Rightarrow>
          if waitingTimer s then fireWaitingEvent (s\<lparr>waitingTimer := False\<rparr>) else quiet s
      | DeferredReset \<Rightarrow>
          if 0 < pendingResets s
          then quiet (resetTracking (s\<lparr>pendingResets := pendingResets s - 1\<rparr>))
          else quiet s)"

text \<open>
  The effect on \<^verbatim>\<open>$connectedMediaProvider\<close>, run with \<open>present\<close> when the provider
  signal changes.
\<close>

definition onProviderChange ::
  "(MediaState \<Rightarrow> MediaState) \<Rightarrow> bool \<Rightarrow> StateManager \<Rightarrow> StateManager" where
  "onProviderChange softReset present s =
     (let s0 = s\<lparr>hasProvider := present\<rparr> in
      if present then s0\<lparr>connected := True\<rparr>
      else if connected s0 then
        (let s1 = resetTracking s0;
             s2 = s1\<lparr>media := softReset (media s1)\<rparr>;
             s3 = s2\<lparr>requestQueue := reset (requestQueue s2)\<rparr>;
             s4 = s3\<lparr>skipInitialSrcChange := True, attachedCanLoadListeners := False,
                    attachedLoadStartListeners := False, attachedCanPlayListeners := False\<rparr>
         in s4\<lparr>media := (media s4)\<lparr>viewType := ''unknown''\<rparr>, connected := False\<rparr>)
      else s0)"

text \<open>The closure as \<^verbatim>\<open>useMediaStateManager\<close> creates it, around a store \<open>m\<close>.\<close>

definition initial :: "MediaState \<Rightarrow> bool \<Rightarrow> StateManager" where
  "initial m onTarget =
     \<lparr>media = m, trackedEvents = Map.empty, requestQueue = Map.empty, isReplay = False,
      isLooping = False, isSeekingRequest = False, hasProvider = False,
      listensOnTarget = onTarget, skipInitialSrcChange = True,
      attachedCanLoadListeners = False, attachedLoadStartListeners = False,
      attachedCanPlayListeners = False, firingWaiting = False, connected = False,
      lastWaitingEvent = None, waitingTimer = False, pendingResets = 0, ariaBusy = True\<rparr>"

text \<open>
  The states the state manager can be in: it starts from \<open>initial\<close>, and each step is an
  event through a listener, a deferred callback, a change of the provider signal, a
  write of the request manager to its own signals and queue, or a write of the request
  manager or of the ad controller to the fields of the store that they set themselves.
\<close>

inductive reachable :: "(MediaState \<Rightarrow> MediaState) \<Rightarrow> MediaState \<Rightarrow> StateManager \<Rightarrow> bool"
  for softReset :: "MediaState \<Rightarrow> MediaState" and m0 :: MediaState where
  start: "reachable softReset m0 (initial m0 onTarget)"
| event: "reachable softReset m0 s \<Longrightarrow> reachable softReset m0 (fst (handle softReset e s))"
| timer: "reachable softReset m0 s \<Longrightarrow> reachable softReset m0 (fst (onTimer t s))"
| provider:
    "reachable softReset m0 s \<Longrightarrow> reachable softReset m0 (onProviderChange softReset b s)"
| requests:
    "reachable softReset m0 s \<Longrightarrow>
     reachable softReset m0
       (s\<lparr>requestQueue := q, isReplay := r, isLooping := l, isSeekingRequest := k\<rparr>)"
| stores:
    "reachable softReset m0 s \<Longrightarrow>
     reachable softReset m0
       (s\<lparr>media := (media s)\<lparr>seeking := a, canLoadPoster := b, canFullscreen := c,
            adStarted := d, adsLoaded := f, adCuePoints := g, playedPreroll := h\<rparr>\<rparr>)"

subsection \<open>Runs\<close>

text \<open>
  The steps of \<open>reachable\<close> other than a change of the provider signal, and a run of such
  steps: what the state manager goes through while the provider signal stays as it is.
\<close>

datatype Step =
    EventStep MediaEvent
  | TimerStep TimerEvent
  | RequestsStep Queue bool bool bool
  | StoresStep bool bool bool bool bool "jsnum list" bool

definition step :: "(MediaState \<Rightarrow> MediaState) \<Rightarrow> Step \<Rightarrow> StateManager \<Rightarrow> StateManager" where
  "step softReset x s =
     (case x of
        EventStep e \<Rightarrow> fst (handle softReset e s)
      | TimerStep t \<Rightarrow> fst (onTimer t s)
      | RequestsStep q r l k \<Rightarrow>
          s\<lparr>requestQueue := q, isReplay := r, isLooping := l, isSeekingRequest := k\<rparr>
      | StoresStep a b c d f g h \<Rightarrow>
          s\<lparr>media := (media s)\<lparr>seeking := a, canLoadPoster := b, canFullscreen := c,
               adStarted := d, adsLoaded := f, adCuePoints := g, playedPreroll := h\<rparr>\<rparr>)"

fun steps :: "(MediaState \<Rightarrow> MediaState) \<Rightarrow> Step list \<Rightarrow> StateManager \<Rightarrow> StateManager" where
  "steps softReset [] s = s"
| "steps softReset (x # xs) s = steps softReset xs (step softReset x s)"

definition isSourceChange :: "Step \<Rightarrow> bool" where
  "isSourceChange x = (case x of EventStep (SourceChange _) \<Rightarrow> True | _ \<Rightarrow> False)"

text \<open>
  An attach is a change of the provider signal from no provider to a provider, at
  creation or after a detach. \<open>afterAttach\<close> is the state after an attach and a run
  \<open>before\<close>; \<open>afterFirst\<close> is the state after a source change handled there and a run
  \<open>between\<close>.
\<close>

definition afterAttach ::
  "(MediaState \<Rightarrow> MediaState) \<Rightarrow> StateManager \<Rightarrow> Step list \<Rightarrow> StateManager" where
  "afterAttach softReset s before = steps softReset before (onProviderChange softReset True s)"

definition afterFirst ::
  "(MediaState \<Rightarrow> MediaState) \<Rightarrow> StateManager \<Rightarrow> Step list \<Rightarrow> string \<Rightarrow> Step list
     \<Rightarrow> StateManager" where
  "afterFirst softReset s before d between =
     steps softReset between
       (fst (handle softReset (SourceChange d) (afterAttach softReset s before)))"

section \<open>The request manager\<close>

text \<open>
  A request handler reads the store and then calls its collaborators: the queue, the
  provider, the state manager (\<^verbatim>\<open>handler.handle\<close>), the idle tracker, the logger, the
  fullscreen and orientation adapters. The model returns these calls in the order the
  source makes them. The result of an asynchronous call is an input: \<open>None\<close> when the
  promise resolves, \<open>Some e\<close> when it rejects with \<open>e\<close>.
\<close>

datatype Effect =
    Enqueue Category RequestEvent
  | Delete Category
  | SetMuted bool
  | SetVolume jsnum
  | SetCurrentTime jsnum
  | CallPlay
  | CallPause
  | Handle MediaEvent
  | SetStoreSeeking bool
  | SetCanLoadPoster bool
  | SetIsSeeking bool
  | SetIsReplay bool
  | SetIdlePaused bool
  | LogError string thrown
  | OrientationLock string
  | OrientationUnlock
  | FullscreenEnter bool
  | FullscreenExit bool

record FullscreenAdapter =
  supported :: bool
  active :: bool

text \<open>
  What the request manager finds around it: the build flag \<^verbatim>\<open>__DEV__\<close> (with a logger),
  the fullscreen adapter of the player, the one of the provider if it has one, the
  orientation adapter and the \<^verbatim>\<open>fullscreenOrientation\<close> prop.
\<close>

record Env =
  dev :: bool
  playerFullscreen :: FullscreenAdapter
  providerFullscreen :: "FullscreenAdapter option"
  orientationSupported :: bool
  orientationLocked :: bool
  fullscreenOrientation :: "string option"

record Outcomes =
  playOutcome :: "thrown option"
  pauseOutcome :: "thrown option"
  lockOutcome :: "thrown option"
  unlockOutcome :: "thrown option"
  enterOutcome :: "thrown option"
  exitOutcome :: "thrown option"

definition onStartLoading :: "MediaState \<Rightarrow> RequestEvent \<Rightarrow> Effect list" where
  "onStartLoading store event =
     (if canLoad store then [] else [Enqueue load event, Handle CanLoad])"

definition onMuteRequest :: "MediaState \<Rightarrow> RequestEvent \<Rightarrow> Effect list" where
  "onMuteRequest store event =
     (if muted store then [] else [Enqueue volume_cat event, SetMuted True])"

definition onUnmuteRequest :: "MediaState \<Rightarrow> RequestEvent \<Rightarrow> Effect list" where
  "onUnmuteRequest store event =
     (if \<not> muted store then []
      else [Enqueue volume_cat event, SetMuted False] @
        (if strict_eq (volume store) (Fin 0)
         then [Enqueue volume_cat event, SetVolume (Fin 0.25)] else []))"

text \<open>
  \<^verbatim>\<open>coerceToError\<close> is imported from \<^verbatim>\<open>utils/error\<close>, which is not among the sources:
  the handlers that call it take it as a parameter.
\<close>

definition onPlayRequest ::
  "(thrown \<Rightarrow> thrown) \<Rightarrow> MediaState \<Rightarrow> RequestEvent \<Rightarrow> thrown option \<Rightarrow> Effect list" where
  "onPlayRequest coerceToError store event outcome =
     (if \<not> paused store then []
      else [Enqueue play event, CallPlay] @
        (case outcome of
           None \<Rightarrow> []
         | Some e \<Rightarrow> [Handle (PlayFail (coerceToError e))]))"

definition onPauseRequest ::
  "bool \<Rightarrow> MediaState \<Rightarrow> RequestEvent \<Rightarrow> thrown option \<Rightarrow> Effect list" where
  "onPauseRequest isDev store event outcome =
     (if paused store then []
      else [Enqueue pause event, CallPause] @
        (case outcome of
           None \<Rightarrow> []
         | Some e \<Rightarrow> [Delete pause] @ (if isDev then [LogError ''pause-fail'' e] else [])))"

definition onSeekingRequest :: "RequestEvent \<Rightarrow> Effect list" where
  "onSeekingRequest event = [Enqueue seeking_cat event, SetStoreSeeking True, SetIsSeeking True]"

definition onSeekRequest :: "MediaState \<Rightarrow> RequestEvent \<Rightarrow> jsnum \<Rightarrow> Effect list" where
  "onSeekRequest store event detail =
     (if ended store then [SetIsReplay True] else []) @
     [Enqueue seeked event, SetIsSeeking False,
      SetCurrentTime
        (if js_lt (js_sub (duration store) detail) (Fin 0.25) then duration store else detail)]"

definition onVolumeChangeRequest :: "MediaState \<Rightarrow> RequestEvent \<Rightarrow> jsnum \<Rightarrow> Effect list" where
  "onVolumeChangeRequest store event detail =
     (if strict_eq (volume store) detail then []
      else [Enqueue volume_cat event, SetVolume detail] @
        (if js_gt detail (Fin 0) \<and> muted store
         then [Enqueue volume_cat event, SetMuted False] else []))"

definition target_name :: "FullscreenTarget \<Rightarrow> string" where
  "target_name t =
     (case t of PreferMedia \<Rightarrow> ''prefer-media'' | TargetMedia \<Rightarrow> ''media''
      | TargetProvider \<Rightarrow> ''provider'')"

text \<open>The error it throws, or \<open>None\<close> when it returns.\<close>

definition throwIfFullscreenNotSupported ::
  "bool \<Rightarrow> FullscreenTarget \<Rightarrow> FullscreenAdapter option \<Rightarrow> thrown option" where
  "throwIfFullscreenNotSupported isDev target fs =
     (if (case fs of None \<Rightarrow> False | Some a \<Rightarrow> supported a) then None
      else Some (Thrown
        (if isDev
         then ''[vidstack] fullscreen is not currently available on target `'' @
              target_name target @ ''`''
         else ''[vidstack] no fullscreen support'')))"

text \<open>
  The adapter that \<^verbatim>\<open>enterFullscreen\<close> and \<^verbatim>\<open>exitFullscreen\<close> pick, with whether it
  is the player's.
\<close>

definition pick_fs :: "Env \<Rightarrow> FullscreenTarget \<Rightarrow> FullscreenAdapter option \<times> bool" where
  "pick_fs env target =
     (if (target = PreferMedia \<and> supported (playerFullscreen env)) \<or> target = TargetMedia
      then (Some (playerFullscreen env), True)
      else (providerFullscreen env, False))"

text \<open>The calls made, and the error the returned promise rejects with, if it does.\<close>

definition enterFullscreen ::
  "Env \<Rightarrow> FullscreenTarget option \<Rightarrow> Outcomes \<Rightarrow> Effect list \<times> thrown option" where
  "enterFullscreen env target_arg out =
     (let target = (case target_arg of None \<Rightarrow> PreferMedia | Some t \<Rightarrow> t);
          (fs, isPlayer) = pick_fs env target
      in case throwIfFullscreenNotSupported (dev env) target fs of
           Some e \<Rightarrow> ([], Some e)
         | None \<Rightarrow>
             if (case fs of None \<Rightarrow> False | Some a \<Rightarrow> active a) then ([], None)
             else
               (case (if orientationSupported env then fullscreenOrientation env else None) of
                  Some lockType \<Rightarrow>
                    (case lockOutcome out of
                       Some e \<Rightarrow> ([OrientationLock lockType], Some e)
                     | None \<Rightarrow>
                         ([OrientationLock lockType, FullscreenEnter isPlayer], enterOutcome out))
                | None \<Rightarrow> ([FullscreenEnter isPlayer], enterOutcome out)))"

definition exitFullscreen ::
  "Env \<Rightarrow> FullscreenTarget option \<Rightarrow> Outcomes \<Rightarrow> Effect list \<times> thrown option" where
  "exitFullscreen env target_arg out =
     (let target = (case target_arg of None \<Rightarrow> PreferMedia | Some t \<Rightarrow> t);
          (fs, isPlayer) = pick_fs env target
      in case throwIfFullscreenNotSupported (dev env) target fs of
           Some e \<Rightarrow> ([], Some e)
         | None \<Rightarrow>
             if \<not> (case fs of None \<Rightarrow> False | Some a \<Rightarrow> active a) then ([], None)
             else if orientationLocked env then
               (case unlockOutcome out of
                  Some e \<Rightarrow> ([OrientationUnlock], Some e)
                | None \<Rightarrow> ([OrientationUnlock, FullscreenExit isPlayer], exitOutcome out))
             else ([FullscreenExit isPlayer], exitOutcome out))"

definition onEnterFullscreenRequest ::
  "(thrown \<Rightarrow> thrown) \<Rightarrow> Env \<Rightarrow> RequestEvent \<Rightarrow> FullscreenTarget option \<Rightarrow> Outcomes
     \<Rightarrow> Effect list" where
  "onEnterFullscreenRequest coerceToError env event detail out =
     (let (calls, failure) = enterFullscreen env detail out in
      [Enqueue fullscreen_cat event] @ calls @
      (case failure of
         None \<Rightarrow> []
       | Some e \<Rightarrow> [Handle (FullscreenErrorEv (coerceToError e) False)]))"

definition onExitFullscreenRequest ::
  "(thrown \<Rightarrow> thrown) \<Rightarrow> Env \<Rightarrow> RequestEvent \<Rightarrow> FullscreenTarget option \<Rightarrow> Outcomes
     \<Rightarrow> Effect list" where
  "onExitFullscreenRequest coerceToError env event detail out =
     (let (calls, failure) = exitFullscreen env detail out in
      [Enqueue fullscreen_cat event] @ calls @
      (case failure of
         None \<Rightarrow> []
       | Some e \<Rightarrow> [Handle (FullscreenErrorEv (coerceToError e) False)]))"

definition onResumeIdlingRequest :: "RequestEvent \<Rightarrow> Effect list" where
  "onResumeIdlingRequest event = [Enqueue userIdle event, SetIdlePaused False]"

definition onPauseIdlingRequest :: "RequestEvent \<Rightarrow> Effect list" where
  "onPauseIdlingRequest event = [Enqueue userIdle event, SetIdlePaused True]"

definition onShowPosterRequest :: "Effect list" where
  "onShowPosterRequest = [SetCanLoadPoster True]"

definition onHidePosterRequest :: "Effect list" where
  "onHidePosterRequest = [SetCanLoadPoster False]"

text \<open>
  The listener that the request manager puts on the player for each request type: the
  handler runs only while a provider is attached. \<^verbatim>\<open>onLoopRequest\<close> only schedules an
  animation frame, whose callback is not modelled: in the listener itself it makes no call.
\<close>

definition onRequest ::
  "(thrown \<Rightarrow> thrown) \<Rightarrow> Env \<Rightarrow> bool \<Rightarrow> MediaState \<Rightarrow> RequestEvent \<Rightarrow> Outcomes
     \<Rightarrow> Effect list" where
  "onRequest coerceToError env providerPresent store event out =
     (if \<not> providerPresent then []
      else
        (case event of
           StartLoading \<Rightarrow> onStartLoading store event
         | MuteRequest \<Rightarrow> onMuteRequest store event
         | UnmuteRequest \<Rightarrow> onUnmuteRequest store event
         | PlayRequest \<Rightarrow> onPlayRequest coerceToError store event (playOutcome out)
         | PauseRequest \<Rightarrow> onPauseRequest (dev env) store event (pauseOutcome out)
         | SeekingRequest detail \<Rightarrow> onSeekingRequest event
         | SeekRequest detail \<Rightarrow> onSeekRequest store event detail
         | VolumeChangeRequest detail \<Rightarrow> onVolumeChangeRequest store event detail
         | EnterFullscreenRequest detail \<Rightarrow>
             onEnterFullscreenRequest coerceToError env event detail out
         | ExitFullscreenRequest detail \<Rightarrow>
             onExitFullscreenRequest coerceToError env event detail out
         | ResumeUserIdleRequest \<Rightarrow> onResumeIdlingRequest event
         | PauseUserIdleRequest \<Rightarrow> onPauseIdlingRequest event
         | ShowPosterRequest \<Rightarrow> onShowPosterRequest
         | HidePosterRequest \<Rightarrow> onHidePosterRequest
         | LoopRequest \<Rightarrow> []))"

subsection \<open>What the calls do\<close>

text \<open>
  The properties of the provider that the request manager writes, and the state the
  calls leave behind: the shared state of the state manager (store, queue, signals),
  the provider's properties and the idle tracker's pause flag. A call whose outcome is
  an input (play, pause, lock, enter, ...) and a log line change none of these.
\<close>

record ProviderProps =
  providerMuted :: bool
  providerVolume :: jsnum
  providerCurrentTime :: jsnum

record World =
  manager :: StateManager
  provider :: ProviderProps
  idlePaused :: bool

definition perform :: "(MediaState \<Rightarrow> MediaState) \<Rightarrow> Effect \<Rightarrow> World \<Rightarrow> World" where
  "perform softReset eff w =
     (case eff of
        Enqueue c r \<Rightarrow>
          w\<lparr>manager := (manager w)\<lparr>requestQueue := enqueue c r (requestQueue (manager w))\<rparr>\<rparr>
      | Delete c \<Rightarrow>
          w\<lparr>manager := (manager w)\<lparr>requestQueue := delete c (requestQueue (manager w))\<rparr>\<rparr>
      | SetMuted b \<Rightarrow> w\<lparr>provider := (provider w)\<lparr>providerMuted := b\<rparr>\<rparr>
      | SetVolume v \<Rightarrow> w\<lparr>provider := (provider w)\<lparr>providerVolume := v\<rparr>\<rparr>
      | SetCurrentTime t \<Rightarrow> w\<lparr>provider := (provider w)\<lparr>providerCurrentTime := t\<rparr>\<rparr>
      | Handle e \<Rightarrow> w\<lparr>manager := fst (handle softReset e (manager w))\<rparr>
      | SetStoreSeeking b \<Rightarrow>
          w\<lparr>manager := (manager w)\<lparr>media := (media (manager w))\<lparr>seeking := b\<rparr>\<rparr>\<rparr>
      | SetCanLoadPoster b \<Rightarrow>
          w\<lparr>manager := (manager w)\<lparr>media := (media (manager w))\<lparr>canLoadPoster := b\<rparr>\<rparr>\<rparr>
      | SetIsSeeking b \<Rightarrow> w\<lparr>manager := (manager w)\<lparr>isSeekingRequest := b\<rparr>\<rparr>
      | SetIsReplay b \<Rightarrow> w\<lparr>manager := (manager w)\<lparr>isReplay := b\<rparr>\<rparr>
      | SetIdlePaused b \<Rightarrow> w\<lparr>idlePaused := b\<rparr>
      | _ \<Rightarrow> w)"

definition perform_all :: "(MediaState \<Rightarrow> MediaState) \<Rightarrow> Effect list \<Rightarrow> World \<Rightarrow> World" where
  "perform_all softReset effs w = foldl (\<lambda>w eff. perform softReset eff w) w effs"

text \<open>
  The \<^verbatim>\<open>volume-change\<close> event by which the provider reports its volume and its muted
  flag once they have been written.
\<close>

definition reportVolume :: "(MediaState \<Rightarrow> MediaState) \<Rightarrow> World \<Rightarrow> World" where
  "reportVolume softReset w =
     w\<lparr>manager := fst (handle softReset
          (VolumeChange (providerVolume (provider w)) (providerMuted (provider w)))
          (manager w))\<rparr>"

text \<open>The records that a list of calls puts under a category, in order.\<close>

definition enqueued :: "Category \<Rightarrow> Effect list \<Rightarrow> RequestEvent list" where
  "enqueued c effs = [r. Enqueue c' r \<leftarrow> effs, c' = c]"

text \<open>The events that a list of calls hands to the state manager, in order.\<close>

definition handled :: "Effect list \<Rightarrow> MediaEvent list" where
  "handled effs = [e. Handle e \<leftarrow> effs]"

section \<open>The idle tracker\<close>

text \<open>
  The closure of \<^verbatim>\<open>useMediaUser\<close> while its host is connected. Time is in milliseconds.
  \<open>idleTimeout\<close> is the pending timer: the time at which it fires and the event its
  callback has captured. \<open>dispatched\<close> lists the \<^verbatim>\<open>vds-user-idle-change\<close> events sent so
  far, each with its detail and its trigger event. An effect runs as soon as the
  observable it reads has been set to a different value.
\<close>

datatype InputEvent = PointerDown | PointerMove | Focus | KeyDown

record MediaUser =
  idle :: bool
  pausedTracking :: bool
  delay :: nat
  idleTimeout :: "(nat \<times> InputEvent) option"
  triggerEvent :: "InputEvent option"
  dispatched :: "(bool \<times> InputEvent option) list"

text \<open>The effect that reads \<^verbatim>\<open>$idle\<close>.\<close>

definition idleEffect :: "MediaUser \<Rightarrow> MediaUser" where
  "idleEffect u =
     u\<lparr>idleTimeout := None, dispatched := dispatched u @ [(idle u, triggerEvent u)],
       triggerEvent := None\<rparr>"

definition set_idle :: "bool \<Rightarrow> MediaUser \<Rightarrow> MediaUser" where
  "set_idle v u = (if idle u = v then u else idleEffect (u\<lparr>idle := v\<rparr>))"

text \<open>The effect that reads \<^verbatim>\<open>$paused\<close>, and the setter of \<^verbatim>\<open>idle.paused\<close>.\<close>

definition pausedEffect :: "MediaUser \<Rightarrow> MediaUser" where
  "pausedEffect u = (if pausedTracking u then set_idle True (u\<lparr>triggerEvent := None\<rparr>) else u)"

definition set_paused :: "bool \<Rightarrow> MediaUser \<Rightarrow> MediaUser" where
  "set_paused v u = (if pausedTracking u = v then u else pausedEffect (u\<lparr>pausedTracking := v\<rparr>))"

text \<open>The effect that reads \<^verbatim>\<open>$media.paused\<close>.\<close>

definition mediaPausedEffect :: "bool \<Rightarrow> MediaUser \<Rightarrow> MediaUser" where
  "mediaPausedEffect mediaPaused u = (if mediaPaused then set_paused True u else u)"

text \<open>
  \<^verbatim>\<open>useMediaUser\<close> followed by \<^verbatim>\<open>onConnect\<close>, for a store whose \<^verbatim>\<open>paused\<close> is
  \<open>mediaPaused\<close>. Each effect runs once when it is created: the first sets \<^verbatim>\<open>$paused\<close>,
  the second then sets \<^verbatim>\<open>$idle\<close>, and the third, created last, dispatches the first
  \<^verbatim>\<open>vds-user-idle-change\<close>.
\<close>

definition useMediaUser :: "bool \<Rightarrow> MediaUser" where
  "useMediaUser mediaPaused =
     idleEffect
       \<lparr>idle = mediaPaused, pausedTracking = mediaPaused, delay = 2000, idleTimeout = None,
        triggerEvent = None, dispatched = []\<rparr>"

text \<open>The listener of the four \<^verbatim>\<open>IDLE_EVENTS\<close>, called at time \<open>now\<close>.\<close>

definition handleIdleChange :: "nat \<Rightarrow> InputEvent \<Rightarrow> MediaUser \<Rightarrow> MediaUser" where
  "handleIdleChange now event u =
     (if pausedTracking u then u else u\<lparr>idleTimeout := Some (now + delay u, event)\<rparr>)"

text \<open>Time reaches \<open>now\<close>: a timer that is due runs its callback.\<close>

definition elapse :: "nat \<Rightarrow> MediaUser \<Rightarrow> MediaUser" where
  "elapse now u =
     (case idleTimeout u of
        None \<Rightarrow> u
      | Some (due, event) \<Rightarrow>
          if due \<le> now
          then set_idle False (u\<lparr>idleTimeout := None, triggerEvent := Some event\<rparr>)
          else u)"

section \<open>The ad controller\<close>

text \<open>
  The fields of \<^verbatim>\<open>AdsController\<close> that its event handlers read and write, with the state
  manager behind \<^verbatim>\<open>this.$state\<close> and the calls made on the remote control, the ads
  manager and the ads loader, in order.
\<close>

record Ad =
  isLinear :: bool
  getDuration :: jsnum

datatype AdCall = RemotePlay | RemotePause | Resize nat | ContentComplete

record AdsController =
  previousPlaybackPosition :: jsnum
  previousPlayedTimeranges :: "TimeRanges option"
  playingNonLinear :: bool
  hasAdsManager :: bool
  hasAdsLoader :: bool
  state :: StateManager
  calls :: "AdCall list"

definition defaultBottomMargin :: nat where
  "defaultBottomMargin = 50"

text \<open>
  Modelled from the spec: \<^verbatim>\<open>delegate._notify\<close> of \<^verbatim>\<open>MediaPlayerDelegate\<close>, which is not
  among the sources. A notification enters the state pipeline as the provider's event of
  the same type does: through the state manager's listeners.
\<close>

definition notify ::
  "(MediaState \<Rightarrow> MediaState) \<Rightarrow> MediaEvent \<Rightarrow> AdsController \<Rightarrow> AdsController" where
  "notify softReset event a = a\<lparr>state := fst (handle softReset event (state a))\<rparr>"

definition onResized :: "AdsController \<Rightarrow> AdsController" where
  "onResized a =
     (if hasAdsManager a
      then a\<lparr>calls := calls a @ [Resize (if playingNonLinear a then defaultBottomMargin else 0)]\<rparr>
      else a)"

definition onContentEnded :: "AdsController \<Rightarrow> AdsController" where
  "onContentEnded a = (if hasAdsLoader a then a\<lparr>calls := calls a @ [ContentComplete]\<rparr> else a)"

definition onAdBuffering :: "(MediaState \<Rightarrow> MediaState) \<Rightarrow> AdsController \<Rightarrow> AdsController" where
  "onAdBuffering softReset a = notify softReset Waiting a"

definition onContentPauseRequested :: "AdsController \<Rightarrow> AdsController" where
  "onContentPauseRequested a = a\<lparr>calls := calls a @ [RemotePause]\<rparr>"

definition onContentResumeRequested :: "AdsController \<Rightarrow> AdsController" where
  "onContentResumeRequested a =
     (if \<not> ended (media (state a)) then a\<lparr>calls := calls a @ [RemotePlay]\<rparr> else a)"

definition set_store :: "(MediaState \<Rightarrow> MediaState) \<Rightarrow> AdsController \<Rightarrow> AdsController" where
  "set_store f a = a\<lparr>state := (state a)\<lparr>media := f (media (state a))\<rparr>\<rparr>"

definition onAdLoaded ::
  "(MediaState \<Rightarrow> MediaState) \<Rightarrow> Ad option \<Rightarrow> AdsController \<Rightarrow> AdsController" where
  "onAdLoaded softReset ad a =
     (let a1 = (if \<not> playedPreroll (media (state a))
                then set_store (\<lambda>m. m\<lparr>playedPreroll := True\<rparr>) a else a)
      in case ad of
           None \<Rightarrow> a1
         | Some x \<Rightarrow>
             if \<not> isLinear x
             then (let a2 = notify softReset Pause a1 in a2\<lparr>calls := calls a2 @ [RemotePlay]\<rparr>)
             else a1)"

definition onAdStart ::
  "(MediaState \<Rightarrow> MediaState) \<Rightarrow> Ad option \<Rightarrow> AdsController \<Rightarrow> AdsController" where
  "onAdStart softReset ad a =
     onResized
       (case (case ad of None \<Rightarrow> None | Some x \<Rightarrow> if isLinear x then Some x else None) of
          Some x \<Rightarrow>
            (let a1 = a\<lparr>playingNonLinear := False\<rparr>;
                 a2 = a1\<lparr>previousPlaybackPosition := currentTime (media (state a1))\<rparr>;
                 a3 = a2\<lparr>previousPlayedTimeranges := Some (played (media (state a2)))\<rparr>;
                 a4 = notify softReset (DurationChange (getDuration x)) a3;
                 a5 = notify softReset Play a4
             in set_store (\<lambda>m. m\<lparr>adStarted := True\<rparr>) a5)
        | None \<Rightarrow> a\<lparr>playingNonLinear := True\<rparr>)"

text \<open>
  \<^verbatim>\<open>this.$state.seekableEnd\<close> is a computed value of the store, declared outside the
  sources: \<^verbatim>\<open>_onAdComplete\<close> takes it as the parameter \<open>seekableEnd\<close>.
\<close>

definition onAdComplete ::
  "(MediaState \<Rightarrow> MediaState) \<Rightarrow> (MediaState \<Rightarrow> jsnum) \<Rightarrow> AdsController \<Rightarrow> AdsController" where
  "onAdComplete softReset seekableEnd a =
     (let a1 = notify softReset (DurationChange (seekableEnd (media (state a)))) a;
          a2 = notify softReset
                 (TimeUpdate (previousPlaybackPosition a1)
                    (case previousPlayedTimeranges a1 of
                       Some r \<Rightarrow> r
                     | None \<Rightarrow> TimeRange (Fin 0) (Fin 0)))
                 a1
      in notify softReset AdEnded a2)"

definition onAdSkip ::
  "(MediaState \<Rightarrow> MediaState) \<Rightarrow> (MediaState \<Rightarrow> jsnum) \<Rightarrow> AdsController \<Rightarrow> AdsController" where
  "onAdSkip softReset seekableEnd a = onAdComplete softReset seekableEnd a"

definition onAdLinearChanged :: "Ad option \<Rightarrow> AdsController \<Rightarrow> AdsController" where
  "onAdLinearChanged ad a =
     onResized
       (if (case ad of None \<Rightarrow> False | Some x \<Rightarrow> isLinear x)
        then a\<lparr>playingNonLinear := False\<rparr> else a\<lparr>playingNonLinear := True\<rparr>)"

text \<open>
  \<open>remaining\<close> is what \<^verbatim>\<open>getRemainingTime\<close> of the ads manager returns, \<open>None\<close> when
  there is no ads manager.
\<close>

definition onAdProgress ::
  "(MediaState \<Rightarrow> MediaState) \<Rightarrow> jsnum option \<Rightarrow> AdsController \<Rightarrow> AdsController" where
  "onAdProgress softReset remaining a =
     (let remainingTime = (case remaining of None \<Rightarrow> Fin 0 | Some r \<Rightarrow> js_or r (Fin 0));
          currentTime' = js_sub (duration (media (state a))) remainingTime
      in notify softReset (TimeUpdate currentTime' (TimeRange (Fin 0) currentTime')) a)"

definition onAdClick :: "(MediaState \<Rightarrow> MediaState) \<Rightarrow> AdsController \<Rightarrow> AdsController" where
  "onAdClick softReset a = notify softReset Pause a"

text \<open>The events of the ads manager that have a handler in \<^verbatim>\<open>_adEventHandlerMapping\<close>.\<close>

datatype AdSdkEvent =
    AdBuffering
  | AdStart "Ad option"
  | AdProgress "jsnum option"
  | AdComplete
  | ContentPauseRequested
  | ContentResumeRequested
  | AdLoaded "Ad option"
  | AdClick
  | AdSkip
  | AdLinearChanged "Ad option"

definition onAdSdkEvent ::
  "(MediaState \<Rightarrow> MediaState) \<Rightarrow> (MediaState \<Rightarrow> jsnum) \<Rightarrow> AdSdkEvent \<Rightarrow> AdsController
     \<Rightarrow> AdsController" where
  "onAdSdkEvent softReset seekableEnd e a =
     (case e of
        AdBuffering \<Rightarrow> onAdBuffering softReset a
      | AdStart ad \<Rightarrow> onAdStart softReset ad a
      | AdProgress remaining \<Rightarrow> onAdProgress softReset remaining a
      | AdComplete \<Rightarrow> onAdComplete softReset seekableEnd a
      | ContentPauseRequested \<Rightarrow> onContentPauseRequested a
      | ContentResumeRequested \<Rightarrow> onContentResumeRequested a
      | AdLoaded ad \<Rightarrow> onAdLoaded softReset ad a
      | AdClick \<Rightarrow> onAdClick softReset a
      | AdSkip \<Rightarrow> onAdSkip softReset seekableEnd a
      | AdLinearChanged ad \<Rightarrow> onAdLinearChanged ad a)"

fun onAdSdkEvents ::
  "(MediaState \<Rightarrow> MediaState) \<Rightarrow> (MediaState \<Rightarrow> jsnum) \<Rightarrow> AdSdkEvent list \<Rightarrow> AdsController
     \<Rightarrow> AdsController" where
  "onAdSdkEvents softReset seekableEnd [] a = a"
| "onAdSdkEvents softReset seekableEnd (e # es) a =
     onAdSdkEvents softReset seekableEnd es (onAdSdkEvent softReset seekableEnd e a)"

text \<open>The events of an ad while it plays: anything but the start of a linear ad.\<close>

definition startsLinear :: "AdSdkEvent \<Rightarrow> bool" where
  "startsLinear e =
     (case e of AdStart (Some x) \<Rightarrow> isLinear x | _ \<Rightarrow> False)"

section \<open>Example states\<close>

text \<open>
  A store before any source is loaded, a soft reset that keeps the volume, the muted
  flag, the sources and the view type, and the state manager once a provider is attached
  and has announced a playable source of 10 seconds.
\<close>

definition exampleStore :: MediaState where
  "exampleStore =
     \<lparr>paused = True, playing = False, seeking = False, waiting = False, ended = False,
      started = False, currentTime = Fin 0, duration = Fin 0, volume = Fin 1, muted = False,
      played = [], buffered = [], bufferedAmount = Fin 0, seekable = [],
      seekableAmount = Fin 0, fullscreen = False, canLoad = False, canLoadPoster = True,
      canFullscreen = False, canPlay = False, viewType = ''unknown'', mediaType = ''unknown'',
      live = False, source = [], sources = [], error = None, attemptingAutoplay = False,
      autoplayError = None, adStarted = False, adsLoaded = False, adCuePoints = [],
      playedPreroll = False\<rparr>"

definition exampleReset :: "MediaState \<Rightarrow> MediaState" where
  "exampleReset m =
     exampleStore\<lparr>volume := volume m, muted := muted m, source := source m,
       sources := sources m, viewType := viewType m, canLoad := canLoad m\<rparr>"

definition readyManager :: StateManager where
  "readyManager =
     fst (handle exampleReset (CanPlay (Fin 10))
       (fst (handle exampleReset LoadStart
         (fst (handle exampleReset CanLoad
           (fst (handle exampleReset (SourceChange ''a.mp4'')
             (onProviderChange exampleReset True (initial exampleStore False)))))))))"

text \<open>The same state manager during a loop: playing at the end, with both flags set.\<close>

definition loopingManager :: StateManager where
  "loopingManager =
     readyManager\<lparr>isLooping := True, isReplay := True,
       media := (media readyManager)\<lparr>paused := False, playing := True, started := True,
         currentTime := Fin 10\<rparr>\<rparr>"

text \<open>
  A development build on a player that supports fullscreen and is not in it, the same
  player in fullscreen, asynchronous calls that all resolve, a rejection, and a provider
  at full volume behind the ready state manager.
\<close>

definition exampleEnv :: Env where
  "exampleEnv =
     \<lparr>dev = True, playerFullscreen = \<lparr>supported = True, active = False\<rparr>,
      providerFullscreen = None, orientationSupported = False, orientationLocked = False,
      fullscreenOrientation = None\<rparr>"

definition fullscreenEnv :: Env where
  "fullscreenEnv = exampleEnv\<lparr>playerFullscreen := \<lparr>supported = True, active = True\<rparr>\<rparr>"

definition allResolve :: Outcomes where
  "allResolve =
     \<lparr>playOutcome = None, pauseOutcome = None, lockOutcome = None, unlockOutcome = None,
      enterOutcome = None, exitOutcome = None\<rparr>"

definition rejection :: thrown where
  "rejection = Thrown ''NotAllowedError''"

definition exampleWorld :: World where
  "exampleWorld =
     \<lparr>manager = readyManager,
      provider = \<lparr>providerMuted = False, providerVolume = Fin 1, providerCurrentTime = Fin 0\<rparr>,
      idlePaused = False\<rparr>"

text \<open>The ready state manager and its provider with the volume at 0 and not muted.\<close>

definition silentWorld :: World where
  "silentWorld =
     \<lparr>manager = readyManager\<lparr>media := (media readyManager)\<lparr>volume := Fin 0\<rparr>\<rparr>,
      provider = \<lparr>providerMuted = False, providerVolume = Fin 0, providerCurrentTime = Fin 0\<rparr>,
      idlePaused = False\<rparr>"

text \<open>The same, muted.\<close>

definition mutedWorld :: World where
  "mutedWorld =
     \<lparr>manager = readyManager\<lparr>media := (media readyManager)\<lparr>volume := Fin 0, muted := True\<rparr>\<rparr>,
      provider = \<lparr>providerMuted = True, providerVolume = Fin 0, providerCurrentTime = Fin 0\<rparr>,
      idlePaused = False\<rparr>"

text \<open>The ready state manager, muted at half volume, and its provider.\<close>

definition mutedHalfWorld :: World where
  "mutedHalfWorld =
     \<lparr>manager = readyManager\<lparr>media := (media readyManager)\<lparr>volume := Fin 0.5, muted := True\<rparr>\<rparr>,
      provider = \<lparr>providerMuted = True, providerVolume = Fin 0.5, providerCurrentTime = Fin 0\<rparr>,
      idlePaused = False\<rparr>"

text \<open>The ready state manager once playback has started, and its provider.\<close>

definition playingManager :: StateManager where
  "playingManager =
     fst (handle exampleReset Playing (fst (handle exampleReset Play readyManager)))"

definition playingWorld :: World where
  "playingWorld = exampleWorld\<lparr>manager := playingManager\<rparr>"

text \<open>
  The state manager with a provider attached, a view type and a list of sources, before
  the first source is set.
\<close>

definition attachedManager :: StateManager where
  "attachedManager =
     fst (handle exampleReset (SourcesChange [''a.mp4''])
       (fst (handle exampleReset (ViewTypeChange ''video'')
         (onProviderChange exampleReset True (initial exampleStore False)))))"

text \<open>
  The same from creation: an attach, the view type and the sources, a first source, the
  three events up to a playable source.
\<close>

definition firstLoad :: StateManager where
  "firstLoad =
     afterFirst exampleReset (initial exampleStore False)
       [EventStep (ViewTypeChange ''video''), EventStep (SourcesChange [''a.mp4''])]
       ''a.mp4''
       [EventStep CanLoad, EventStep LoadStart, EventStep (CanPlay (Fin 10))]"

text \<open>
  Content of 100 seconds, 60 of them seekable, stopped at 42 seconds for a linear ad of
  30 seconds that reports its progress twice and buffers in between.
\<close>

definition contentManager :: StateManager where
  "contentManager =
     readyManager\<lparr>media := (media readyManager)\<lparr>started := True, currentTime := Fin 42,
       played := TimeRange (Fin 0) (Fin 42), duration := Fin 100,
       seekable := TimeRange (Fin 0) (Fin 60), seekableAmount := Fin 60\<rparr>\<rparr>"

definition contentAds :: AdsController where
  "contentAds =
     \<lparr>previousPlaybackPosition = Fin 0, previousPlayedTimeranges = None,
      playingNonLinear = False, hasAdsManager = True, hasAdsLoader = True,
      state = contentManager, calls = []\<rparr>"

definition linearAd :: Ad where
  "linearAd = \<lparr>isLinear = True, getDuration = Fin 30\<rparr>"

definition adBreak :: AdsController where
  "adBreak =
     onAdSdkEvents exampleReset seekableAmount
       [AdProgress (Some (Fin 20)), AdBuffering, AdProgress (Some (Fin 5))]
       (onAdStart exampleReset (Some linearAd) contentAds)"

section \<open>Invariants\<close>

text \<open>
  Until the first source change after an attach has been handled, no
  \<^verbatim>\<open>vds-source-change\<close> event is tracked.
\<close>

definition untracked :: "StateManager \<Rightarrow> bool" where
  "untracked s =
     (if skipInitialSrcChange s then trackedEvents s ''vds-source-change'' = None else True)"

text \<open>
  While no provider is attached the next source change will be skipped, and an attached
  provider has been connected.
\<close>

definition armed :: "StateManager \<Rightarrow> bool" where
  "armed s = ((\<not> hasProvider s \<longrightarrow> skipInitialSrcChange s) \<and> (hasProvider s \<longrightarrow> connected s))"

text \<open>
  A provider is attached and no source change has been handled since the attach; a
  provider is attached and a source change has been handled since.
\<close>

definition fresh :: "StateManager \<Rightarrow> bool" where
  "fresh s = (hasProvider s \<and> skipInitialSrcChange s)"

definition settled :: "StateManager \<Rightarrow> bool" where
  "settled s = (hasProvider s \<and> \<not> skipInitialSrcChange s)"

text \<open>The invariant of the store: ended implies paused and not playing.\<close>

definition endedInv :: "MediaState \<Rightarrow> bool" where
  "endedInv m = (ended m \<longrightarrow> paused m \<and> \<not> playing m)"

text \<open>The provider is attached and the playback listeners are on it.\<close>

definition listening :: "StateManager \<Rightarrow> bool" where
  "listening s = (hasProvider s \<and> attachedCanPlayListeners s)"

text \<open>The four fields of the store that an ad break is about.\<close>

definition position :: "MediaState \<Rightarrow> jsnum \<times> TimeRanges \<times> jsnum \<times> jsnum" where
  "position m = (currentTime m, played m, duration m, seekableAmount m)"

section \<open>Unfolding\<close>

lemmas handler_defs = onViewTypeChange_def onCanLoad_def onSourcesChange_def onSourceChange_def
  onMediaTypeChange_def onLoadStart_def onError_def onCanPlay_def onCanPlayThrough_def
  onDurationChange_def onAutoplay_def onAutoplayFail_def onPlay_def onPlayFail_def onPlaying_def
  onPause_def onTimeUpdate_def onVolumeChange_def onSeeking_def onSeeked_def onWaiting_def
  onEnded_def onProgress_def onFullscreenChange_def onFullscreenError_def
  attachCanLoadEventListeners_def attachLoadStartEventListeners_def attachCanPlayListeners_def
  resetTracking_def stopWaiting_def trackEvent_def satisfyMediaRequest_def quiet_def
  fireWaitingEvent_def

lemmas request_defs = onRequest_def onStartLoading_def onMuteRequest_def onUnmuteRequest_def
  onPlayRequest_def onPauseRequest_def onSeekingRequest_def onSeekRequest_def
  onVolumeChangeRequest_def onEnterFullscreenRequest_def onExitFullscreenRequest_def
  onResumeIdlingRequest_def onPauseIdlingRequest_def onShowPosterRequest_def
  onHidePosterRequest_def

lemmas perform_defs = perform_all_def perform_def enqueue_def delete_def

lemmas round_defs = round_double_def double_def pow2_def exponent.simps rne_def Let_def

lemma readyManager_eq:
  "readyManager =
     \<lparr>media = exampleStore\<lparr>source := ''a.mp4'', canLoad := True, canPlay := True,
        duration := Fin 10\<rparr>,
      trackedEvents = [''vds-source-change'' \<mapsto> SourceChange ''a.mp4'',
        ''vds-can-load'' \<mapsto> CanLoad, ''vds-load-start'' \<mapsto> LoadStart,
        ''vds-can-play'' \<mapsto> CanPlay (Fin 10)],
      requestQueue = Map.empty, isReplay = False, isLooping = False,
      isSeekingRequest = False, hasProvider = True, listensOnTarget = False,
      skipInitialSrcChange = False, attachedCanLoadListeners = True,
      attachedLoadStartListeners = True, attachedCanPlayListeners = True,
      firingWaiting = False, connected = True, lastWaitingEvent = None,
      waitingTimer = False, pendingResets = 0, ariaBusy = False\<rparr>"
  by (simp add: readyManager_def handle_def handler_defs initial_def onProviderChange_def
      serve_def Let_def exampleStore_def)

section \<open>Duration changes\<close>

text \<open>
  C10. A \<^verbatim>\<open>vds-duration-change\<close> event that reaches the state manager through one of its
  two listeners stores its payload as the duration when the payload is not \<open>NaN\<close>, and
  \<open>0\<close> when it is: the duration in the store is never \<open>NaN\<close> afterwards.
\<close>

theorem onDurationChange_never_stores_NaN:
  assumes "hasProvider s"
    and "attachedLoadStartListeners s \<or> attachedCanPlayListeners s"
  shows "duration (media (fst (handle softReset (DurationChange detail) s))) =
           (if isNaN detail then Fin 0 else detail) \<and>
         \<not> isNaN (duration (media (fst (handle softReset (DurationChange detail) s))))"
  using assms
  by (auto simp: handle_def onDurationChange_def quiet_def Let_def isNaN_def
      split: jsnum.splits)

theorem onDurationChange_never_stores_NaN_witness:
  "duration (media (fst (handle exampleReset (DurationChange NaN) readyManager))) = Fin 0 \<and>
   duration (media (fst (handle exampleReset (DurationChange (Fin 42)) readyManager))) = Fin 42"
  using onDurationChange_never_stores_NaN[of readyManager exampleReset NaN]
    onDurationChange_never_stores_NaN[of readyManager exampleReset "Fin 42"]
  by (simp add: readyManager_eq isNaN_def)

section \<open>Ended while looping\<close>

text \<open>
  C6. While the looping flag is set, \<^verbatim>\<open>onEnded\<close> only stops the propagation of the
  event: the state manager, and with it every field of the store, is as before, so the
  \<^verbatim>\<open>ended\<close> field is not set by this event.
\<close>

theorem onEnded_suppressed_while_looping:
  assumes "isLooping s"
  shows "onEnded s = (s, [StopImmediatePropagation]) \<and>
         fst (handle softReset Ended s) = s \<and>
         media (fst (handle softReset Ended s)) = media s \<and>
         (ended (media (fst (handle softReset Ended s))) \<longrightarrow> ended (media s)) \<and>
         (hasProvider s \<and> attachedCanPlayListeners s \<longrightarrow>
            snd (handle softReset Ended s) = [StopImmediatePropagation])"
proof -
  have h: "onEnded s = (s, [StopImmediatePropagation])"
    using assms by (simp add: onEnded_def)
  have "fst (handle softReset Ended s) = s"
    by (simp add: handle_def quiet_def h)
  moreover have "hasProvider s \<and> attachedCanPlayListeners s \<longrightarrow>
      snd (handle softReset Ended s) = [StopImmediatePropagation]"
    by (simp add: handle_def quiet_def h)
  ultimately show ?thesis using h by simp
qed

theorem onEnded_suppressed_while_looping_witness:
  "isLooping loopingManager \<and>
   handle exampleReset Ended loopingManager = (loopingManager, [StopImmediatePropagation]) \<and>
   \<not> ended (media (fst (handle exampleReset Ended loopingManager)))"
proof -
  have l: "isLooping loopingManager" by (simp add: loopingManager_def)
  have a: "hasProvider loopingManager \<and> attachedCanPlayListeners loopingManager"
    by (simp add: loopingManager_def readyManager_eq)
  have e: "\<not> ended (media loopingManager)"
    by (simp add: loopingManager_def readyManager_eq exampleStore_def)
  from onEnded_suppressed_while_looping[OF l, of exampleReset] a e l show ?thesis
    by (metis prod.collapse)
qed

section \<open>Seek requests\<close>

text \<open>
  The doubles that the examples use: the literals 9.9, 0.3 and 0.05, and the differences
  the seek handler computes from them. The difference of 0.3 and 0.05 lies half-way
  between two doubles and rounds to 0.25.
\<close>

lemma double_9_9: "double 9.9 = Fin (5573204538870989 / 2 ^ 49)"
  by (simp add: round_defs)

lemma double_0_3: "double 0.3 = Fin (5404319552844595 / 2 ^ 54)"
  by (simp add: round_defs)

lemma double_0_05: "double 0.05 = Fin (3602879701896397 / 2 ^ 56)"
  by (simp add: round_defs)

lemma ten_minus_9_9: "js_sub (Fin 10) (double 9.9) = Fin (56294995342131 / 2 ^ 49)"
  by (simp add: double_9_9) (simp add: round_defs)

lemma ten_minus_9: "js_sub (Fin 10) (Fin 9) = Fin 1"
  by (simp add: round_defs)

lemma near_quarter: "js_sub (double 0.3) (double 0.05) = Fin 0.25"
  by (simp add: double_0_3 double_0_05) (simp add: round_defs)

text \<open>
  C5. A seek request sets the provider's current time to the duration when the duration
  minus the requested time, as the doubles subtract, is less than 0.25, and to the
  requested time otherwise.
\<close>

theorem onSeekRequest_target_time:
  "(js_lt (js_sub (duration store) detail) (Fin 0.25) \<longrightarrow>
      providerCurrentTime (provider (perform_all softReset
        (onRequest coerceToError env True store (SeekRequest detail) out) w)) =
        duration store) \<and>
   (\<not> js_lt (js_sub (duration store) detail) (Fin 0.25) \<longrightarrow>
      providerCurrentTime (provider (perform_all softReset
        (onRequest coerceToError env True store (SeekRequest detail) out) w)) = detail)"
  by (simp add: request_defs perform_defs)

text \<open>
  With a duration of 10, a request for 9.9 targets 10 and a request for 9 targets 9; with
  a duration of 0.3, a request for 0.05 targets 0.05, the difference being 0.25 once
  rounded.
\<close>

theorem onSeekRequest_target_time_witness:
  "providerCurrentTime (provider (perform_all exampleReset
     (onRequest id exampleEnv True (media readyManager) (SeekRequest (double 9.9)) allResolve)
     exampleWorld)) = Fin 10 \<and>
   providerCurrentTime (provider (perform_all exampleReset
     (onRequest id exampleEnv True (media readyManager) (SeekRequest (Fin 9)) allResolve)
     exampleWorld)) = Fin 9 \<and>
   providerCurrentTime (provider (perform_all exampleReset
     (onRequest id exampleEnv True ((media readyManager)\<lparr>duration := double 0.3\<rparr>)
        (SeekRequest (double 0.05)) allResolve)
     exampleWorld)) = double 0.05"
proof -
  have d: "duration (media readyManager) = Fin 10"
    by (simp add: readyManager_eq)
  have a: "js_lt (js_sub (duration (media readyManager)) (double 9.9)) (Fin 0.25)"
    using ten_minus_9_9 by (simp add: d)
  have b: "\<not> js_lt (js_sub (duration (media readyManager)) (Fin 9)) (Fin 0.25)"
    using ten_minus_9 by (simp add: d)
  have c: "\<not> js_lt (js_sub (duration ((media readyManager)\<lparr>duration := double 0.3\<rparr>))
      (double 0.05)) (Fin 0.25)"
    using near_quarter by simp
  note near = onSeekRequest_target_time[where store = "media readyManager"
      and detail = "double 9.9" and softReset = exampleReset and coerceToError = id
      and env = exampleEnv and out = allResolve and w = exampleWorld,
      THEN conjunct1, THEN mp, OF a]
  note far = onSeekRequest_target_time[where store = "media readyManager"
      and detail = "Fin 9" and softReset = exampleReset and coerceToError = id
      and env = exampleEnv and out = allResolve and w = exampleWorld,
      THEN conjunct2, THEN mp, OF b]
  note edge = onSeekRequest_target_time[where
      store = "(media readyManager)\<lparr>duration := double 0.3\<rparr>"
      and detail = "double 0.05" and softReset = exampleReset and coerceToError = id
      and env = exampleEnv and out = allResolve and w = exampleWorld,
      THEN conjunct2, THEN mp, OF c]
  from near far edge show ?thesis by (simp only: d simp_thms)
qed

lemma playingManager_media:
  "media playingManager =
     exampleStore\<lparr>source := ''a.mp4'', canLoad := True, canPlay := True, duration := Fin 10,
       paused := False, playing := True, started := True\<rparr>"
  by (simp add: playingManager_def readyManager_eq handle_def handler_defs Let_def serve_def
      exampleStore_def)

section \<open>Volume change requests\<close>

text \<open>
  C9. A volume-change request for the volume the store already has makes no call at all.
  A request that gets past this guard, for a volume above 0 and while the store is muted,
  puts a second record under the volume category and writes \<^verbatim>\<open>muted = false\<close> to the
  provider, after the new volume.
\<close>

theorem onVolumeChangeRequest_unmutes:
  "(\<not> strict_eq (volume store) detail \<and> js_gt detail (Fin 0) \<and> muted store \<longrightarrow>
      enqueued volume_cat (onRequest coerceToError env True store (VolumeChangeRequest detail) out) =
        [VolumeChangeRequest detail, VolumeChangeRequest detail] \<and>
      providerMuted (provider (perform_all softReset
        (onRequest coerceToError env True store (VolumeChangeRequest detail) out) w)) = False \<and>
      providerVolume (provider (perform_all softReset
        (onRequest coerceToError env True store (VolumeChangeRequest detail) out) w)) = detail) \<and>
   (strict_eq (volume store) detail \<longrightarrow>
      onRequest coerceToError env True store (VolumeChangeRequest detail) out = [] \<and>
      perform_all softReset
        (onRequest coerceToError env True store (VolumeChangeRequest detail) out) w = w)"
  by (simp add: request_defs perform_defs enqueued_def)

theorem onVolumeChangeRequest_unmutes_witness:
  "enqueued volume_cat (onRequest id exampleEnv True (media (manager mutedHalfWorld))
      (VolumeChangeRequest (Fin 0.8)) allResolve) =
     [VolumeChangeRequest (Fin 0.8), VolumeChangeRequest (Fin 0.8)] \<and>
   providerMuted (provider (perform_all exampleReset
     (onRequest id exampleEnv True (media (manager mutedHalfWorld))
        (VolumeChangeRequest (Fin 0.8)) allResolve) mutedHalfWorld)) = False \<and>
   providerVolume (provider (perform_all exampleReset
     (onRequest id exampleEnv True (media (manager mutedHalfWorld))
        (VolumeChangeRequest (Fin 0.8)) allResolve) mutedHalfWorld)) = Fin 0.8 \<and>
   perform_all exampleReset
     (onRequest id exampleEnv True (media (manager mutedHalfWorld))
        (VolumeChangeRequest (Fin 0.5)) allResolve) mutedHalfWorld = mutedHalfWorld"
proof -
  have v: "volume (media (manager mutedHalfWorld)) = Fin 0.5"
    and m: "muted (media (manager mutedHalfWorld))"
    by (simp_all add: mutedHalfWorld_def)
  have a: "\<not> strict_eq (volume (media (manager mutedHalfWorld))) (Fin 0.8) \<and>
      js_gt (Fin 0.8) (Fin 0) \<and> muted (media (manager mutedHalfWorld))"
    by (simp add: v m strict_eq_def js_gt_def)
  have b: "strict_eq (volume (media (manager mutedHalfWorld))) (Fin 0.5)"
    by (simp add: v strict_eq_def)
  from a b
    onVolumeChangeRequest_unmutes[of "media (manager mutedHalfWorld)" "Fin 0.8" id exampleEnv
      allResolve exampleReset mutedHalfWorld]
    onVolumeChangeRequest_unmutes[of "media (manager mutedHalfWorld)" "Fin 0.5" id exampleEnv
      allResolve exampleReset mutedHalfWorld]
  show ?thesis by (simp add: perform_all_def)
qed

section \<open>Failures of play, pause and fullscreen\<close>

lemma handled_enterFullscreen: "handled (fst (enterFullscreen env d out)) = []"
  by (simp add: enterFullscreen_def handled_def Let_def split: option.splits prod.splits)

lemma handled_exitFullscreen: "handled (fst (exitFullscreen env d out)) = []"
  by (simp add: exitFullscreen_def handled_def Let_def split: option.splits prod.splits)

text \<open>
  C8. When the provider rejects \<^verbatim>\<open>pause()\<close>, the pause request deletes its slot of the
  queue and, in a development build, logs the error: it hands no event to the state
  manager, and the store is as before. When the provider rejects \<^verbatim>\<open>play()\<close>, or entering
  or leaving fullscreen fails, the request hands the state manager a failure event that
  carries the coerced error.
\<close>

theorem pause_failure_not_surfaced:
  "(\<not> paused store \<longrightarrow>
      onRequest coerceToError env True store PauseRequest (out\<lparr>pauseOutcome := Some e\<rparr>) =
        [Enqueue pause PauseRequest, CallPause, Delete pause] @
        (if dev env then [LogError ''pause-fail'' e] else []) \<and>
      handled (onRequest coerceToError env True store PauseRequest
        (out\<lparr>pauseOutcome := Some e\<rparr>)) = [] \<and>
      requestQueue (manager (perform_all softReset
        (onRequest coerceToError env True store PauseRequest (out\<lparr>pauseOutcome := Some e\<rparr>)) w))
        pause = None \<and>
      media (manager (perform_all softReset
        (onRequest coerceToError env True store PauseRequest (out\<lparr>pauseOutcome := Some e\<rparr>)) w))
        = media (manager w)) \<and>
   (paused store \<longrightarrow>
      handled (onRequest coerceToError env True store PlayRequest
        (out\<lparr>playOutcome := Some e\<rparr>)) = [PlayFail (coerceToError e)]) \<and>
   (snd (enterFullscreen env d out) = Some e \<longrightarrow>
      handled (onRequest coerceToError env True store (EnterFullscreenRequest d) out) =
        [FullscreenErrorEv (coerceToError e) False]) \<and>
   (snd (exitFullscreen env d out) = Some e \<longrightarrow>
      handled (onRequest coerceToError env True store (ExitFullscreenRequest d) out) =
        [FullscreenErrorEv (coerceToError e) False])"
proof -
  have p: "\<not> paused store \<Longrightarrow>
      onRequest coerceToError env True store PauseRequest (out\<lparr>pauseOutcome := Some e\<rparr>) =
        [Enqueue pause PauseRequest, CallPause, Delete pause] @
        (if dev env then [LogError ''pause-fail'' e] else [])"
    by (simp add: request_defs)
  have q: "\<not> paused store \<Longrightarrow> requestQueue (manager (perform_all softReset
        (onRequest coerceToError env True store PauseRequest (out\<lparr>pauseOutcome := Some e\<rparr>)) w))
        pause = None \<and>
      media (manager (perform_all softReset
        (onRequest coerceToError env True store PauseRequest (out\<lparr>pauseOutcome := Some e\<rparr>)) w))
        = media (manager w)"
    by (simp add: p perform_defs)
  have h: "\<not> paused store \<Longrightarrow> handled (onRequest coerceToError env True store PauseRequest
        (out\<lparr>pauseOutcome := Some e\<rparr>)) = []"
    by (simp add: p handled_def)
  have pl: "paused store \<Longrightarrow> handled (onRequest coerceToError env True store PlayRequest
        (out\<lparr>playOutcome := Some e\<rparr>)) = [PlayFail (coerceToError e)]"
    by (simp add: request_defs handled_def)
  have en: "snd (enterFullscreen env d out) = Some e \<Longrightarrow>
      handled (onRequest coerceToError env True store (EnterFullscreenRequest d) out) =
        [FullscreenErrorEv (coerceToError e) False]"
    using handled_enterFullscreen[of env d out]
    by (cases "enterFullscreen env d out") (simp add: request_defs handled_def)
  have ex: "snd (exitFullscreen env d out) = Some e \<Longrightarrow>
      handled (onRequest coerceToError env True store (ExitFullscreenRequest d) out) =
        [FullscreenErrorEv (coerceToError e) False]"
    using handled_exitFullscreen[of env d out]
    by (cases "exitFullscreen env d out") (simp add: request_defs handled_def)
  from p q h pl en ex show ?thesis by simp
qed

theorem pause_failure_not_surfaced_witness:
  "handled (onRequest id exampleEnv True (media (manager playingWorld)) PauseRequest
      (allResolve\<lparr>pauseOutcome := Some rejection\<rparr>)) = [] \<and>
   requestQueue (manager (perform_all exampleReset
      (onRequest id exampleEnv True (media (manager playingWorld)) PauseRequest
        (allResolve\<lparr>pauseOutcome := Some rejection\<rparr>)) playingWorld)) pause = None \<and>
   handled (onRequest id exampleEnv True (media (manager exampleWorld)) PlayRequest
      (allResolve\<lparr>playOutcome := Some rejection\<rparr>)) = [PlayFail rejection] \<and>
   handled (onRequest id exampleEnv True (media (manager exampleWorld))
      (EnterFullscreenRequest None) (allResolve\<lparr>enterOutcome := Some rejection\<rparr>)) =
     [FullscreenErrorEv rejection False] \<and>
   handled (onRequest id fullscreenEnv True (media (manager exampleWorld))
      (ExitFullscreenRequest None) (allResolve\<lparr>exitOutcome := Some rejection\<rparr>)) =
     [FullscreenErrorEv rejection False]"
proof -
  have a: "\<not> paused (media (manager playingWorld))"
    by (simp add: playingWorld_def exampleWorld_def playingManager_media)
  have b: "paused (media (manager exampleWorld))"
    by (simp add: exampleWorld_def readyManager_eq exampleStore_def)
  have c: "snd (enterFullscreen exampleEnv None (allResolve\<lparr>enterOutcome := Some rejection\<rparr>)) =
      Some rejection"
    by (simp add: enterFullscreen_def pick_fs_def throwIfFullscreenNotSupported_def
        exampleEnv_def allResolve_def)
  have d: "snd (exitFullscreen fullscreenEnv None (allResolve\<lparr>exitOutcome := Some rejection\<rparr>)) =
      Some rejection"
    by (simp add: exitFullscreen_def pick_fs_def throwIfFullscreenNotSupported_def
        fullscreenEnv_def exampleEnv_def allResolve_def)
  note pause_case = pause_failure_not_surfaced[where store = "media (manager playingWorld)" and coerceToError = id
      and env = exampleEnv and out = allResolve and e = rejection and softReset = exampleReset
      and w = playingWorld and d = None, THEN conjunct1, THEN mp, OF a]
  note play_case = pause_failure_not_surfaced[where store = "media (manager exampleWorld)" and coerceToError = id
      and env = exampleEnv and out = allResolve and e = rejection and softReset = exampleReset
      and w = exampleWorld and d = None, THEN conjunct2, THEN conjunct1, THEN mp, OF b]
  note enter_case = pause_failure_not_surfaced[where store = "media (manager exampleWorld)" and coerceToError = id
      and env = exampleEnv and out = "allResolve\<lparr>enterOutcome := Some rejection\<rparr>"
      and e = rejection and softReset = exampleReset and w = exampleWorld and d = None,
      THEN conjunct2, THEN conjunct2, THEN conjunct1, THEN mp, OF c]
  note exit_case = pause_failure_not_surfaced[where store = "media (manager exampleWorld)" and coerceToError = id
      and env = fullscreenEnv and out = "allResolve\<lparr>exitOutcome := Some rejection\<rparr>"
      and e = rejection and softReset = exampleReset and w = exampleWorld and d = None,
      THEN conjunct2, THEN conjunct2, THEN conjunct2, THEN mp, OF d]
  show ?thesis
    using pause_case[THEN conjunct2, THEN conjunct1]
      pause_case[THEN conjunct2, THEN conjunct2, THEN conjunct1]
      play_case enter_case exit_case
    by (simp only: id_apply simp_thms)
qed

section \<open>Mute and unmute requests\<close>

lemma reportVolume_store:
  assumes "hasProvider (manager w)" and "attachedCanPlayListeners (manager w)"
  shows "volume (media (manager (reportVolume softReset w))) = providerVolume (provider w) \<and>
         muted (media (manager (reportVolume softReset w))) =
           (providerMuted (provider w) \<or> strict_eq (providerVolume (provider w)) (Fin 0))"
  using assms
  by (simp add: reportVolume_def handle_def onVolumeChange_def satisfyMediaRequest_def quiet_def)

lemma perform_all_manager_flags:
  assumes "handled effs = []"
  shows "hasProvider (manager (perform_all softReset effs w)) = hasProvider (manager w) \<and>
         attachedCanPlayListeners (manager (perform_all softReset effs w)) =
           attachedCanPlayListeners (manager w)"
  using assms
proof (induction effs arbitrary: w)
  case Nil
  then show ?case by (simp add: perform_all_def)
next
  case (Cons a effs)
  have h: "handled effs = []" using Cons.prems by (cases a) (simp_all add: handled_def)
  have nh: "\<And>e. a \<noteq> Handle e" using Cons.prems by (auto simp: handled_def)
  have step: "hasProvider (manager (perform softReset a w)) = hasProvider (manager w) \<and>
      attachedCanPlayListeners (manager (perform softReset a w)) =
        attachedCanPlayListeners (manager w)"
    using nh by (cases a) (auto simp: perform_def)
  have "perform_all softReset (a # effs) w = perform_all softReset effs (perform softReset a w)"
    by (simp add: perform_all_def)
  with Cons.IH[OF h, of "perform softReset a w"] step show ?case by simp
qed

text \<open>
  C2, as amended. A mute request received while the store is not muted puts one record
  under the volume category and writes \<^verbatim>\<open>muted = true\<close> to the provider, whose volume it
  leaves alone. It is the unmute request that, received while the store is muted with a
  volume of exactly 0, puts two records under the volume category and leaves the
  provider, and the store once the provider has reported, unmuted at volume 0.25.
\<close>

theorem mute_unmute_volume_coupling:
  "(\<not> muted store \<longrightarrow>
      enqueued volume_cat (onRequest coerceToError env True store MuteRequest out) = [MuteRequest] \<and>
      providerMuted (provider (perform_all softReset
        (onRequest coerceToError env True store MuteRequest out) w)) = True \<and>
      providerVolume (provider (perform_all softReset
        (onRequest coerceToError env True store MuteRequest out) w)) = providerVolume (provider w)) \<and>
   (muted store \<and> strict_eq (volume store) (Fin 0) \<longrightarrow>
      enqueued volume_cat (onRequest coerceToError env True store UnmuteRequest out) =
        [UnmuteRequest, UnmuteRequest] \<and>
      providerMuted (provider (perform_all softReset
        (onRequest coerceToError env True store UnmuteRequest out) w)) = False \<and>
      providerVolume (provider (perform_all softReset
        (onRequest coerceToError env True store UnmuteRequest out) w)) = Fin 0.25 \<and>
      (hasProvider (manager w) \<and> attachedCanPlayListeners (manager w) \<longrightarrow>
         \<not> muted (media (manager (reportVolume softReset (perform_all softReset
           (onRequest coerceToError env True store UnmuteRequest out) w)))) \<and>
         volume (media (manager (reportVolume softReset (perform_all softReset
           (onRequest coerceToError env True store UnmuteRequest out) w)))) = Fin 0.25))"
proof -
  let ?m = "onRequest coerceToError env True store MuteRequest out"
  let ?u = "onRequest coerceToError env True store UnmuteRequest out"
  have m: "\<not> muted store \<Longrightarrow> ?m = [Enqueue volume_cat MuteRequest, SetMuted True]"
    by (simp add: request_defs)
  have u: "muted store \<Longrightarrow> strict_eq (volume store) (Fin 0) \<Longrightarrow>
      ?u = [Enqueue volume_cat UnmuteRequest, SetMuted False,
            Enqueue volume_cat UnmuteRequest, SetVolume (Fin 0.25)]"
    by (simp add: request_defs)
  have 1: "\<not> muted store \<Longrightarrow> enqueued volume_cat ?m = [MuteRequest] \<and>
      providerMuted (provider (perform_all softReset ?m w)) = True \<and>
      providerVolume (provider (perform_all softReset ?m w)) = providerVolume (provider w)"
    by (simp add: m perform_defs enqueued_def)
  have 2: "muted store \<Longrightarrow> strict_eq (volume store) (Fin 0) \<Longrightarrow>
      enqueued volume_cat ?u = [UnmuteRequest, UnmuteRequest] \<and>
      providerMuted (provider (perform_all softReset ?u w)) = False \<and>
      providerVolume (provider (perform_all softReset ?u w)) = Fin 0.25"
    by (simp add: u perform_defs enqueued_def)
  have 3: "\<not> muted (media (manager (reportVolume softReset (perform_all softReset ?u w)))) \<and>
      volume (media (manager (reportVolume softReset (perform_all softReset ?u w)))) = Fin 0.25"
    if a: "muted store" "strict_eq (volume store) (Fin 0)"
      and b: "hasProvider (manager w)" "attachedCanPlayListeners (manager w)"
  proof -
    have "handled ?u = []" by (simp add: u[OF a] handled_def)
    from perform_all_manager_flags[OF this, of softReset w] b
    have "hasProvider (manager (perform_all softReset ?u w))"
      and "attachedCanPlayListeners (manager (perform_all softReset ?u w))"
      by simp_all
    from reportVolume_store[OF this, of softReset] 2[OF a] show ?thesis
      by (simp add: strict_eq_def)
  qed
  from 1 2 3 show ?thesis by simp
qed

theorem mute_unmute_volume_coupling_witness:
  "enqueued volume_cat (onRequest id exampleEnv True (media (manager silentWorld))
      MuteRequest allResolve) = [MuteRequest] \<and>
   providerVolume (provider (perform_all exampleReset
     (onRequest id exampleEnv True (media (manager silentWorld)) MuteRequest allResolve)
     silentWorld)) = Fin 0 \<and>
   enqueued volume_cat (onRequest id exampleEnv True (media (manager mutedWorld))
      UnmuteRequest allResolve) = [UnmuteRequest, UnmuteRequest] \<and>
   providerVolume (provider (perform_all exampleReset
     (onRequest id exampleEnv True (media (manager mutedWorld)) UnmuteRequest allResolve)
     mutedWorld)) = Fin 0.25 \<and>
   volume (media (manager (reportVolume exampleReset (perform_all exampleReset
     (onRequest id exampleEnv True (media (manager mutedWorld)) UnmuteRequest allResolve)
     mutedWorld)))) = Fin 0.25"
proof -
  have a: "\<not> muted (media (manager silentWorld))"
    by (simp add: silentWorld_def readyManager_eq exampleStore_def)
  have pv: "providerVolume (provider silentWorld) = Fin 0"
    by (simp add: silentWorld_def)
  have b: "muted (media (manager mutedWorld)) \<and>
      strict_eq (volume (media (manager mutedWorld))) (Fin 0)"
    by (simp add: mutedWorld_def strict_eq_def)
  have c: "hasProvider (manager mutedWorld) \<and> attachedCanPlayListeners (manager mutedWorld)"
    by (simp add: mutedWorld_def readyManager_eq)
  note mute_case = mute_unmute_volume_coupling[where store = "media (manager silentWorld)" and coerceToError = id
      and env = exampleEnv and out = allResolve and softReset = exampleReset
      and w = silentWorld, THEN conjunct1, THEN mp, OF a]
  note unmute_case = mute_unmute_volume_coupling[where store = "media (manager mutedWorld)" and coerceToError = id
      and env = exampleEnv and out = allResolve and softReset = exampleReset
      and w = mutedWorld, THEN conjunct2, THEN mp, OF b]
  note report = unmute_case[THEN conjunct2, THEN conjunct2, THEN conjunct2, THEN mp, OF c]
  show ?thesis
    using mute_case[THEN conjunct1] mute_case[THEN conjunct2, THEN conjunct2]
      unmute_case[THEN conjunct1] unmute_case[THEN conjunct2, THEN conjunct2, THEN conjunct1]
      report[THEN conjunct2] pv
    by (simp only: simp_thms)
qed

text \<open>
  C2 as stated fails: muting at volume 0 puts one record in the queue, and the volume
  stays at 0.
\<close>

theorem mute_at_zero_volume_counterexample:
  "\<not> muted (media (manager silentWorld)) \<and>
   volume (media (manager silentWorld)) = Fin 0 \<and>
   length (enqueued volume_cat (onRequest id exampleEnv True (media (manager silentWorld))
      MuteRequest allResolve)) = 1 \<and>
   providerVolume (provider (perform_all exampleReset
     (onRequest id exampleEnv True (media (manager silentWorld)) MuteRequest allResolve)
     silentWorld)) = Fin 0 \<and>
   volume (media (manager (reportVolume exampleReset (perform_all exampleReset
     (onRequest id exampleEnv True (media (manager silentWorld)) MuteRequest allResolve)
     silentWorld)))) = Fin 0 \<and>
   \<not> (length (enqueued volume_cat (onRequest id exampleEnv True (media (manager silentWorld))
         MuteRequest allResolve)) = 2 \<and>
       muted (media (manager (reportVolume exampleReset (perform_all exampleReset
         (onRequest id exampleEnv True (media (manager silentWorld)) MuteRequest allResolve)
         silentWorld)))) \<and>
       volume (media (manager (reportVolume exampleReset (perform_all exampleReset
         (onRequest id exampleEnv True (media (manager silentWorld)) MuteRequest allResolve)
         silentWorld)))) = Fin 0.25)"
proof -
  let ?effs = "onRequest id exampleEnv True (media (manager silentWorld)) MuteRequest allResolve"
  have m: "\<not> muted (media (manager silentWorld))"
    by (simp add: silentWorld_def readyManager_eq exampleStore_def)
  have z: "volume (media (manager silentWorld)) = Fin 0"
    by (simp add: silentWorld_def)
  have r: "?effs = [Enqueue volume_cat MuteRequest, SetMuted True]"
    using m by (simp add: request_defs)
  have e1: "enqueued volume_cat ?effs = [MuteRequest]"
    by (simp add: r enqueued_def)
  have p: "perform_all exampleReset ?effs silentWorld =
      silentWorld\<lparr>manager := (manager silentWorld)\<lparr>requestQueue :=
          (requestQueue (manager silentWorld))(volume_cat \<mapsto> MuteRequest)\<rparr>,
        provider := (provider silentWorld)\<lparr>providerMuted := True\<rparr>\<rparr>"
    by (simp add: r perform_defs)
  have e2: "providerVolume (provider (perform_all exampleReset ?effs silentWorld)) = Fin 0"
    by (simp add: p) (simp add: silentWorld_def)
  have e3: "volume (media (manager (reportVolume exampleReset
      (perform_all exampleReset ?effs silentWorld)))) = Fin 0"
    by (simp add: p) (simp add: reportVolume_def silentWorld_def readyManager_eq handle_def
        onVolumeChange_def satisfyMediaRequest_def quiet_def)
  show ?thesis
    by (simp add: m z e1 e2 e3)
qed

section \<open>The idle timer\<close>

lemma idle_after_silence:
  assumes "\<not> pausedTracking u"
  shows "idle (elapse (now + delay u) (handleIdleChange now event u)) = False"
  using assms by (simp add: elapse_def handleIdleChange_def set_idle_def idleEffect_def)

text \<open>
  C3. The code at the claim's input: with the media playing, a pointer move followed by
  2000ms of silence leaves \<^verbatim>\<open>idling\<close> false and dispatches nothing; and when \<^verbatim>\<open>idling\<close>
  is true, after a pause and a resume of the tracking, the same silence sets it to false.
\<close>

theorem idle_timer_clears_idling:
  "idle (elapse 2000 (handleIdleChange 0 PointerMove (useMediaUser False))) = False \<and>
   dispatched (elapse 2000 (handleIdleChange 0 PointerMove (useMediaUser False))) =
     dispatched (useMediaUser False) \<and>
   idle (set_paused False (useMediaUser True)) = True \<and>
   idle (elapse 2000 (handleIdleChange 0 PointerMove (set_paused False (useMediaUser True)))) =
     False"
  by (simp add: elapse_def handleIdleChange_def useMediaUser_def idleEffect_def set_idle_def
      set_paused_def pausedEffect_def)

section \<open>Source changes\<close>

lemma handle_untracked:
  assumes "untracked s"
  shows "untracked (fst (handle softReset e s))"
  using assms
  by (cases e) (auto simp: handle_def handler_defs untracked_def Let_def serve_def split: if_splits)

lemma timer_untracked:
  assumes "untracked s"
  shows "untracked (fst (onTimer t s))"
  using assms
  by (cases t)
    (simp_all add: onTimer_def handler_defs untracked_def Let_def split: option.splits)

lemma provider_untracked:
  assumes "untracked s"
  shows "untracked (onProviderChange softReset b s)"
  using assms
  by (simp add: onProviderChange_def handler_defs untracked_def Let_def reset_def)

lemma reachable_untracked:
  assumes "reachable softReset m0 s"
  shows "untracked s"
  using assms
proof (induction rule: reachable.induct)
  case (start onTarget)
  show ?case by (simp add: initial_def untracked_def)
next
  case (event s e)
  from event.IH show ?case by (rule handle_untracked)
next
  case (timer s t)
  from timer.IH show ?case by (rule timer_untracked)
next
  case (provider s b)
  from provider.IH show ?case by (rule provider_untracked)
next
  case (requests s q r l k)
  from requests.IH show ?case by (simp add: untracked_def)
next
  case (stores s a b c d f g h)
  from stores.IH show ?case by (simp add: untracked_def)
qed

lemma first_source_change:
  assumes "hasProvider s" and "skipInitialSrcChange s"
  shows "fst (handle softReset (SourceChange d) s) =
    s\<lparr>media := (media s)\<lparr>source := d\<rparr>,
      trackedEvents := (trackedEvents s)(''vds-source-change'' \<mapsto> SourceChange d),
      ariaBusy := True, skipInitialSrcChange := False\<rparr>"
  using assms by (simp add: handle_def handler_defs Let_def)

lemma later_source_change:
  assumes "hasProvider s" and "\<not> skipInitialSrcChange s"
  shows "media (fst (handle softReset (SourceChange d) s)) =
           softReset ((media s)\<lparr>source := d, waiting := False\<rparr>) \<and>
         trackedEvents (fst (handle softReset (SourceChange d) s)) =
           [''vds-source-change'' \<mapsto> SourceChange d]"
  using assms by (simp add: handle_def handler_defs Let_def)

lemma reachable_step:
  assumes "reachable softReset m0 s"
  shows "reachable softReset m0 (step softReset x s)"
  using assms
  by (cases x) (simp_all add: step_def reachable.event reachable.timer reachable.requests
      reachable.stores)

lemma reachable_steps:
  assumes "reachable softReset m0 s"
  shows "reachable softReset m0 (steps softReset xs s)"
  using assms
proof (induction xs arbitrary: s)
  case Nil
  then show ?case by simp
next
  case (Cons x xs)
  from Cons.prems have "reachable softReset m0 (step softReset x s)"
    by (rule reachable_step)
  then have "reachable softReset m0 (steps softReset xs (step softReset x s))"
    by (rule Cons.IH)
  then show ?case by simp
qed

lemma handle_armed:
  assumes "armed s"
  shows "armed (fst (handle softReset e s))"
  using assms
  by (cases e) (auto simp: handle_def handler_defs armed_def Let_def split: if_splits)

lemma timer_armed:
  assumes "armed s"
  shows "armed (fst (onTimer t s))"
  using assms
  by (cases t) (simp_all add: onTimer_def handler_defs armed_def Let_def split: option.splits)

lemma provider_armed:
  assumes "armed s"
  shows "armed (onProviderChange softReset b s)"
  using assms
  by (auto simp: onProviderChange_def handler_defs armed_def Let_def reset_def)

lemma reachable_armed:
  assumes "reachable softReset m0 s"
  shows "armed s"
  using assms
proof (induction rule: reachable.induct)
  case (start onTarget)
  show ?case by (simp add: initial_def armed_def)
next
  case (event s e)
  from event.IH show ?case by (rule handle_armed)
next
  case (timer s t)
  from timer.IH show ?case by (rule timer_armed)
next
  case (provider s b)
  from provider.IH show ?case by (rule provider_armed)
next
  case (requests s q r l k)
  from requests.IH show ?case by (simp add: armed_def)
next
  case (stores s a b c d f g h)
  from stores.IH show ?case by (simp add: armed_def)
qed

lemma attach_fresh:
  assumes "reachable softReset m0 s" and "\<not> hasProvider s"
  shows "fresh (onProviderChange softReset True s)"
  using reachable_armed[OF assms(1)] assms(2)
  by (simp add: armed_def fresh_def onProviderChange_def Let_def)

lemma handle_fresh:
  assumes "fresh s" and "\<And>d. e \<noteq> SourceChange d"
  shows "fresh (fst (handle softReset e s))"
  using assms
  by (cases e) (auto simp: handle_def handler_defs fresh_def Let_def split: if_splits)

lemma timer_fresh:
  assumes "fresh s"
  shows "fresh (fst (onTimer t s))"
  using assms
  by (cases t) (simp_all add: onTimer_def handler_defs fresh_def Let_def split: option.splits)

lemma step_fresh:
  assumes "fresh s" and "\<not> isSourceChange x"
  shows "fresh (step softReset x s)"
proof (cases x)
  case (EventStep e)
  have "\<And>d. e \<noteq> SourceChange d"
    using assms(2) EventStep by (auto simp: isSourceChange_def)
  from handle_fresh[OF assms(1) this] EventStep show ?thesis by (simp add: step_def)
next
  case (TimerStep t)
  with timer_fresh[OF assms(1)] show ?thesis by (simp add: step_def)
next
  case (RequestsStep q r l k)
  with assms(1) show ?thesis by (simp add: step_def fresh_def)
next
  case (StoresStep a b c d f g h)
  with assms(1) show ?thesis by (simp add: step_def fresh_def)
qed

lemma steps_fresh:
  assumes "fresh s" and "\<forall>x \<in> set xs. \<not> isSourceChange x"
  shows "fresh (steps softReset xs s)"
  using assms
proof (induction xs arbitrary: s)
  case Nil
  then show ?case by simp
next
  case (Cons x xs)
  have "fresh (step softReset x s)"
    using Cons.prems by (simp add: step_fresh)
  moreover have "\<forall>y \<in> set xs. \<not> isSourceChange y"
    using Cons.prems(2) by simp
  ultimately have "fresh (steps softReset xs (step softReset x s))"
    by (rule Cons.IH)
  then show ?case by simp
qed

lemma handle_settled:
  assumes "settled s"
  shows "settled (fst (handle softReset e s))"
  using assms
  by (cases e) (auto simp: handle_def handler_defs settled_def Let_def split: if_splits)

lemma timer_settled:
  assumes "settled s"
  shows "settled (fst (onTimer t s))"
  using assms
  by (cases t) (simp_all add: onTimer_def handler_defs settled_def Let_def split: option.splits)

lemma step_settled:
  assumes "settled s"
  shows "settled (step softReset x s)"
proof (cases x)
  case (EventStep e)
  with handle_settled[OF assms] show ?thesis by (simp add: step_def)
next
  case (TimerStep t)
  with timer_settled[OF assms] show ?thesis by (simp add: step_def)
next
  case (RequestsStep q r l k)
  with assms show ?thesis by (simp add: step_def settled_def)
next
  case (StoresStep a b c d f g h)
  with assms show ?thesis by (simp add: step_def settled_def)
qed

lemma steps_settled:
  assumes "settled s"
  shows "settled (steps softReset xs s)"
  using assms
proof (induction xs arbitrary: s)
  case Nil
  then show ?case by simp
next
  case (Cons x xs)
  have "settled (step softReset x s)" using Cons.prems by (rule step_settled)
  then have "settled (steps softReset xs (step softReset x s))" by (rule Cons.IH)
  then show ?case by simp
qed

lemma first_settles:
  assumes "fresh s"
  shows "settled (fst (handle softReset (SourceChange d) s))"
  using assms by (simp add: handle_def handler_defs fresh_def settled_def Let_def)

lemma detach_rearms:
  assumes "reachable softReset m0 s"
  shows "skipInitialSrcChange (onProviderChange softReset False s)"
proof -
  have "reachable softReset m0 (onProviderChange softReset False s)"
    using assms by (rule reachable.provider)
  then have "armed (onProviderChange softReset False s)"
    by (rule reachable_armed)
  moreover have "\<not> hasProvider (onProviderChange softReset False s)"
    by (simp add: onProviderChange_def handler_defs Let_def)
  ultimately show ?thesis by (simp add: armed_def)
qed

text \<open>
  C4. Let a provider be attached in a reachable state that has none, and let any run
  without a source change follow. The first source change then writes only \<^verbatim>\<open>source\<close>
  into the store and keeps every tracked event (it adds itself to them). After any
  further run, every other source change leaves the store soft-reset and the tracked
  events cleared, but for the source change itself.
\<close>

theorem source_change_reset_boundary:
  assumes "reachable softReset m0 s" and "\<not> hasProvider s"
    and "\<forall>x \<in> set before. \<not> isSourceChange x"
  shows "media (fst (handle softReset (SourceChange d) (afterAttach softReset s before))) =
           (media (afterAttach softReset s before))\<lparr>source := d\<rparr> \<and>
         (\<forall>k e. trackedEvents (afterAttach softReset s before) k = Some e \<longrightarrow>
            trackedEvents (fst (handle softReset (SourceChange d)
              (afterAttach softReset s before))) k = Some e) \<and>
         media (fst (handle softReset (SourceChange d')
            (afterFirst softReset s before d between))) =
           softReset ((media (afterFirst softReset s before d between))
             \<lparr>source := d', waiting := False\<rparr>) \<and>
         trackedEvents (fst (handle softReset (SourceChange d')
            (afterFirst softReset s before d between))) =
           [''vds-source-change'' \<mapsto> SourceChange d']"
proof -
  let ?a = "afterAttach softReset s before"
  let ?f = "afterFirst softReset s before d between"
  have ra: "reachable softReset m0 ?a"
    unfolding afterAttach_def
    by (intro reachable_steps reachable.provider assms(1))
  have fa: "fresh ?a"
    unfolding afterAttach_def
    by (intro steps_fresh attach_fresh[OF assms(1,2)] assms(3))
  then have pa: "hasProvider ?a" and ka: "skipInitialSrcChange ?a"
    by (simp_all add: fresh_def)
  note first = first_source_change[OF pa ka, of softReset d]
  have n: "trackedEvents ?a ''vds-source-change'' = None"
    using reachable_untracked[OF ra] ka by (simp add: untracked_def)
  have 1: "media (fst (handle softReset (SourceChange d) ?a)) = (media ?a)\<lparr>source := d\<rparr>"
    by (simp add: first)
  have 2: "\<forall>k e. trackedEvents ?a k = Some e \<longrightarrow>
      trackedEvents (fst (handle softReset (SourceChange d) ?a)) k = Some e"
    using n by (auto simp: first)
  have "settled ?f"
    unfolding afterFirst_def
    by (intro steps_settled first_settles fa)
  then have pf: "hasProvider ?f" and kf: "\<not> skipInitialSrcChange ?f"
    by (simp_all add: settled_def)
  note later = later_source_change[OF pf kf, of softReset d']
  from 1 2 later show ?thesis by simp
qed

lemma reachable_readyManager: "reachable exampleReset exampleStore readyManager"
  unfolding readyManager_def
  by (intro reachable.event reachable.provider reachable.start)

lemma reachable_attachedManager: "reachable exampleReset exampleStore attachedManager"
  unfolding attachedManager_def
  by (intro reachable.event reachable.provider reachable.start)

lemma reachable_playingManager: "reachable exampleReset exampleStore playingManager"
  unfolding playingManager_def
  by (intro reachable.event reachable_readyManager)

lemma attachedManager_eq:
  "attachedManager =
     (initial exampleStore False)\<lparr>media := exampleStore\<lparr>viewType := ''video'', sources := [''a.mp4'']\<rparr>,
       trackedEvents := [''vds-sources-change'' \<mapsto> SourcesChange [''a.mp4'']],
       hasProvider := True, connected := True\<rparr>"
  by (simp add: attachedManager_def handle_def handler_defs initial_def onProviderChange_def Let_def)

lemma firstLoad_eq:
  "firstLoad =
     fst (handle exampleReset (CanPlay (Fin 10))
       (fst (handle exampleReset LoadStart
         (fst (handle exampleReset CanLoad
           (fst (handle exampleReset (SourceChange ''a.mp4'') attachedManager)))))))"
  by (simp add: firstLoad_def afterFirst_def afterAttach_def step_def attachedManager_def)

lemma firstLoad_media:
  "media firstLoad =
     exampleStore\<lparr>viewType := ''video'', sources := [''a.mp4''], source := ''a.mp4'',
       canLoad := True, canPlay := True, duration := Fin 10\<rparr>"
  by (simp add: firstLoad_eq attachedManager_eq initial_def handle_def handler_defs Let_def
      serve_def)

theorem source_change_reset_boundary_witness:
  "media (fst (handle exampleReset (SourceChange ''a.mp4'') attachedManager)) =
     (media attachedManager)\<lparr>source := ''a.mp4''\<rparr> \<and>
   trackedEvents (fst (handle exampleReset (SourceChange ''a.mp4'') attachedManager))
     ''vds-sources-change'' = Some (SourcesChange [''a.mp4'']) \<and>
   canPlay (media firstLoad) \<and>
   media (fst (handle exampleReset (SourceChange ''b.mp4'') firstLoad)) =
     exampleReset ((media firstLoad)\<lparr>source := ''b.mp4'', waiting := False\<rparr>) \<and>
   \<not> canPlay (media (fst (handle exampleReset (SourceChange ''b.mp4'') firstLoad))) \<and>
   trackedEvents (fst (handle exampleReset (SourceChange ''b.mp4'') firstLoad)) =
     [''vds-source-change'' \<mapsto> SourceChange ''b.mp4'']"
proof -
  let ?before = "[EventStep (ViewTypeChange ''video''), EventStep (SourcesChange [''a.mp4''])]"
  let ?between = "[EventStep CanLoad, EventStep LoadStart, EventStep (CanPlay (Fin 10))]"
  have r: "reachable exampleReset exampleStore (initial exampleStore False)"
    by (rule reachable.start)
  have p: "\<not> hasProvider (initial exampleStore False)"
    by (simp add: initial_def)
  have b: "\<forall>x \<in> set ?before. \<not> isSourceChange x"
    by (simp add: isSourceChange_def)
  have a: "afterAttach exampleReset (initial exampleStore False) ?before = attachedManager"
    by (simp add: afterAttach_def step_def attachedManager_def)
  have c: "trackedEvents attachedManager ''vds-sources-change'' =
      Some (SourcesChange [''a.mp4''])"
    by (simp add: attachedManager_eq initial_def)
  note t = source_change_reset_boundary[OF r p b, of "''a.mp4''" "''b.mp4''" ?between,
      folded firstLoad_def, unfolded a]
  from t[THEN conjunct2, THEN conjunct1] c
  have kept: "trackedEvents (fst (handle exampleReset (SourceChange ''a.mp4'') attachedManager))
      ''vds-sources-change'' = Some (SourcesChange [''a.mp4''])"
    by (elim allE impE) assumption
  note reset = t[THEN conjunct2, THEN conjunct2, THEN conjunct1]
  have before: "canPlay (media firstLoad)"
    by (simp add: firstLoad_media)
  have after: "\<not> canPlay (media (fst (handle exampleReset (SourceChange ''b.mp4'') firstLoad)))"
    by (simp add: reset) (simp add: exampleReset_def exampleStore_def)
  from t[THEN conjunct1] kept before reset after t[THEN conjunct2, THEN conjunct2, THEN conjunct2]
  show ?thesis by (simp only: simp_thms)
qed

section \<open>Ended implies paused and not playing\<close>

lemma handle_endedInv:
  assumes sr: "\<And>m. endedInv (softReset m)" and i: "endedInv (media s)"
  shows "endedInv (media (fst (handle softReset e s)))"
  using i sr
  by (cases e) (auto simp: handle_def handler_defs endedInv_def Let_def split: if_splits)

lemma timer_endedInv:
  assumes i: "endedInv (media s)"
  shows "endedInv (media (fst (onTimer t s)))"
  using i
  by (cases t) (simp_all add: onTimer_def handler_defs endedInv_def Let_def split: option.splits)

lemma provider_endedInv:
  assumes sr: "\<And>m. endedInv (softReset m)" and i: "endedInv (media s)"
  shows "endedInv (media (onProviderChange softReset b s))"
proof -
  have "endedInv (softReset m\<lparr>viewType := v\<rparr>)" for m v
    using sr[of m] by (simp add: endedInv_def)
  then show ?thesis using i
    by (simp add: onProviderChange_def handler_defs Let_def reset_def)
qed

lemma reachable_endedInv:
  assumes sr: "\<And>m. endedInv (softReset m)" and i: "endedInv m0" and r: "reachable softReset m0 s"
  shows "endedInv (media s)"
  using r
proof (induction rule: reachable.induct)
  case (start onTarget) then show ?case using i by (simp add: initial_def)
next
  case (event s e) from event.IH show ?case by (rule handle_endedInv[OF sr])
next
  case (timer s t) from timer.IH show ?case by (rule timer_endedInv)
next
  case (provider s b) from provider.IH show ?case by (rule provider_endedInv[OF sr])
next
  case (requests s q r l k) from requests.IH show ?case by simp
next
  case (stores s a b c d f g h) from stores.IH show ?case by (simp add: endedInv_def)
qed

text \<open>
  C7. Let the soft reset and the store at creation satisfy the invariant. Then in every
  reachable state, and for every event, the store after the event is handled satisfies
  it: if \<^verbatim>\<open>ended\<close> is true then \<^verbatim>\<open>paused\<close> is true and \<^verbatim>\<open>playing\<close> is false.
\<close>

theorem ended_implies_paused_not_playing:
  assumes "\<forall>m. ended (softReset m) \<longrightarrow> paused (softReset m) \<and> \<not> playing (softReset m)"
    and "ended m0 \<longrightarrow> paused m0 \<and> \<not> playing m0"
    and "reachable softReset m0 s"
  shows "ended (media (fst (handle softReset e s))) \<longrightarrow>
         paused (media (fst (handle softReset e s))) \<and>
         \<not> playing (media (fst (handle softReset e s)))"
proof -
  have sr: "\<And>m. endedInv (softReset m)" using assms(1) by (simp add: endedInv_def)
  have i: "endedInv m0" using assms(2) by (simp add: endedInv_def)
  have "endedInv (media s)" by (rule reachable_endedInv[OF sr i assms(3)])
  then have "endedInv (media (fst (handle softReset e s)))" by (rule handle_endedInv[OF sr])
  then show ?thesis by (simp add: endedInv_def)
qed

theorem ended_implies_paused_not_playing_witness:
  "playing (media playingManager) \<and>
   ended (media (fst (handle exampleReset Ended playingManager))) \<and>
   paused (media (fst (handle exampleReset Ended playingManager))) \<and>
   \<not> playing (media (fst (handle exampleReset Ended playingManager)))"
proof -
  have a: "\<forall>m. ended (exampleReset m) \<longrightarrow> paused (exampleReset m) \<and> \<not> playing (exampleReset m)"
    by (simp add: exampleReset_def exampleStore_def)
  have b: "ended exampleStore \<longrightarrow> paused exampleStore \<and> \<not> playing exampleStore"
    by (simp add: exampleStore_def)
  have f: "hasProvider playingManager \<and> attachedCanPlayListeners playingManager \<and>
      \<not> isLooping playingManager"
    by (simp add: playingManager_def readyManager_eq handle_def handler_defs Let_def)
  have e: "ended (media (fst (handle exampleReset Ended playingManager)))"
    using f by (simp add: handle_def onEnded_def resetTracking_def stopWaiting_def)
  have p: "playing (media playingManager)"
    by (simp add: playingManager_media)
  from ended_implies_paused_not_playing[OF a b reachable_playingManager, of Ended] e p show ?thesis by simp
qed

section \<open>Ad breaks\<close>

lemma handle_listening:
  assumes "listening s"
  shows "listening (fst (handle softReset e s))"
  using assms
  by (cases e) (auto simp: handle_def handler_defs listening_def Let_def split: if_splits)

lemma notify_listening:
  assumes "listening (state a)"
  shows "listening (state (notify softReset e a))"
  using handle_listening[OF assms] by (simp add: notify_def)

lemma notify_snapshot:
  "previousPlaybackPosition (notify softReset e a) = previousPlaybackPosition a \<and>
   previousPlayedTimeranges (notify softReset e a) = previousPlayedTimeranges a"
  by (simp add: notify_def)

lemma set_store_listening:
  "listening (state (set_store f a)) = listening (state a)"
  by (simp add: set_store_def listening_def)

lemma set_store_snapshot:
  "previousPlaybackPosition (set_store f a) = previousPlaybackPosition a \<and>
   previousPlayedTimeranges (set_store f a) = previousPlayedTimeranges a"
  by (simp add: set_store_def)

lemmas ad_defs = onAdSdkEvent_def onAdBuffering_def onAdStart_def onAdProgress_def
  onAdComplete_def onAdSkip_def onContentPauseRequested_def onContentResumeRequested_def
  onAdLoaded_def onAdClick_def onAdLinearChanged_def onResized_def

lemma onAdSdkEvent_listening:
  assumes "listening (state a)"
  shows "listening (state (onAdSdkEvent softReset seekableEnd e a))"
  using assms
  by (cases e)
    (simp_all add: ad_defs Let_def set_store_listening notify_listening split: option.splits)

lemma onAdSdkEvent_snapshot:
  assumes "\<not> startsLinear e"
  shows "previousPlaybackPosition (onAdSdkEvent softReset seekableEnd e a) =
           previousPlaybackPosition a \<and>
         previousPlayedTimeranges (onAdSdkEvent softReset seekableEnd e a) =
           previousPlayedTimeranges a"
  using assms
  by (cases e)
    (simp_all add: ad_defs startsLinear_def notify_snapshot set_store_snapshot Let_def
      split: option.splits)

lemma onAdSdkEvents_invariant:
  assumes "\<forall>e \<in> set es. \<not> startsLinear e" and "listening (state a)"
  shows "previousPlaybackPosition (onAdSdkEvents softReset seekableEnd es a) =
           previousPlaybackPosition a \<and>
         previousPlayedTimeranges (onAdSdkEvents softReset seekableEnd es a) =
           previousPlayedTimeranges a \<and>
         listening (state (onAdSdkEvents softReset seekableEnd es a))"
  using assms
proof (induction es arbitrary: a)
  case Nil
  then show ?case by simp
next
  case (Cons e es)
  have n: "\<not> startsLinear e" and r: "\<forall>x \<in> set es. \<not> startsLinear x"
    using Cons.prems(1) by simp_all
  have l: "listening (state (onAdSdkEvent softReset seekableEnd e a))"
    by (rule onAdSdkEvent_listening[OF Cons.prems(2)])
  from Cons.IH[OF r l] onAdSdkEvent_snapshot[OF n, of softReset seekableEnd a]
  show ?case by simp
qed

lemma onAdStart_snapshot:
  assumes "isLinear ad"
  shows "previousPlaybackPosition (onAdStart softReset (Some ad) a) = currentTime (media (state a)) \<and>
         previousPlayedTimeranges (onAdStart softReset (Some ad) a) =
           Some (played (media (state a)))"
  using assms by (simp add: onAdStart_def onResized_def set_store_def notify_def Let_def)

lemma onAdComplete_restores:
  assumes "listening (state a)"
  shows "currentTime (media (state (onAdComplete softReset seekableEnd a))) =
           previousPlaybackPosition a \<and>
         played (media (state (onAdComplete softReset seekableEnd a))) =
           (case previousPlayedTimeranges a of Some r \<Rightarrow> r | None \<Rightarrow> TimeRange (Fin 0) (Fin 0)) \<and>
         duration (media (state (onAdComplete softReset seekableEnd a))) =
           (if isNaN (seekableEnd (media (state a))) then Fin 0
            else seekableEnd (media (state a)))"
  using assms
  by (simp add: onAdComplete_def notify_def handle_def onDurationChange_def onTimeUpdate_def
      quiet_def Let_def listening_def)

text \<open>
  C1, as amended. Let a linear ad start while the provider is attached with its playback
  listeners, and let any events of the ads manager follow but the start of another
  linear ad. When the ad then completes, or is skipped, the store has the current time
  and the played ranges it had when the ad started. Its duration is the seekable end of
  the store at completion, or 0 if that is \<open>NaN\<close>: no duration is kept from before the ad.
\<close>

theorem ad_break_restores_position:
  assumes "isLinear ad"
    and "\<forall>e \<in> set es. \<not> startsLinear e"
    and "hasProvider (state a)" and "attachedCanPlayListeners (state a)"
  shows "currentTime (media (state (onAdComplete softReset seekableEnd
            (onAdSdkEvents softReset seekableEnd es (onAdStart softReset (Some ad) a))))) =
           currentTime (media (state a)) \<and>
         played (media (state (onAdComplete softReset seekableEnd
            (onAdSdkEvents softReset seekableEnd es (onAdStart softReset (Some ad) a))))) =
           played (media (state a)) \<and>
         duration (media (state (onAdComplete softReset seekableEnd
            (onAdSdkEvents softReset seekableEnd es (onAdStart softReset (Some ad) a))))) =
           (if isNaN (seekableEnd (media (state
                (onAdSdkEvents softReset seekableEnd es (onAdStart softReset (Some ad) a)))))
            then Fin 0
            else seekableEnd (media (state
                (onAdSdkEvents softReset seekableEnd es (onAdStart softReset (Some ad) a))))) \<and>
         onAdSkip softReset seekableEnd
            (onAdSdkEvents softReset seekableEnd es (onAdStart softReset (Some ad) a)) =
           onAdComplete softReset seekableEnd
            (onAdSdkEvents softReset seekableEnd es (onAdStart softReset (Some ad) a))"
proof -
  let ?started = "onAdStart softReset (Some ad) a"
  let ?before = "onAdSdkEvents softReset seekableEnd es ?started"
  have l0: "listening (state a)" using assms(3,4) by (simp add: listening_def)
  have "?started = onAdSdkEvent softReset seekableEnd (AdStart (Some ad)) a"
    by (simp add: onAdSdkEvent_def)
  then have l1: "listening (state ?started)"
    using onAdSdkEvent_listening[OF l0, of softReset seekableEnd "AdStart (Some ad)"] by simp
  note inv = onAdSdkEvents_invariant[OF assms(2) l1, of softReset seekableEnd]
  note snap = onAdStart_snapshot[OF assms(1), of softReset a]
  note restored = onAdComplete_restores[OF inv[THEN conjunct2, THEN conjunct2], of softReset seekableEnd]
  from inv snap restored show ?thesis by (simp add: onAdSkip_def)
qed

lemma contentAds_media:
  "currentTime (media (state contentAds)) = Fin 42 \<and>
   played (media (state contentAds)) = TimeRange (Fin 0) (Fin 42) \<and>
   duration (media (state contentAds)) = Fin 100 \<and>
   hasProvider (state contentAds) \<and> attachedCanPlayListeners (state contentAds)"
  by (simp add: contentAds_def contentManager_def readyManager_eq)

lemma handle_DurationChange_listening:
  assumes "listening s"
  shows "fst (handle softReset (DurationChange d) s) =
    s\<lparr>media := (media s)\<lparr>duration := (if isNaN d then Fin 0 else d)\<rparr>\<rparr>"
  using assms
  by (simp add: handle_def onDurationChange_def quiet_def Let_def listening_def)

lemma handle_TimeUpdate_listening:
  assumes "listening s"
  shows "fst (handle softReset (TimeUpdate t p) s) =
    s\<lparr>media := (media s)\<lparr>currentTime := t, played := p, waiting := False\<rparr>\<rparr>"
  using assms
  by (simp add: handle_def onTimeUpdate_def quiet_def listening_def)

lemma handle_Play_position:
  "position (media (fst (handle softReset Play s))) = position (media s)"
  by (simp add: handle_def onPlay_def trackEvent_def satisfyMediaRequest_def quiet_def
      position_def Let_def)

lemma handle_Waiting_position:
  "position (media (fst (handle softReset Waiting s))) = position (media s)"
  by (simp add: handle_def onWaiting_def quiet_def position_def)

lemma onAdStart_position:
  assumes "listening (state a)" and "isLinear ad"
  shows "position (media (state (onAdStart softReset (Some ad) a))) =
    (currentTime (media (state a)), played (media (state a)),
     (if isNaN (getDuration ad) then Fin 0 else getDuration ad),
     seekableAmount (media (state a)))"
proof -
  let ?a3 = "a\<lparr>playingNonLinear := False,
    previousPlaybackPosition := currentTime (media (state a)),
    previousPlayedTimeranges := Some (played (media (state a)))\<rparr>"
  let ?a4 = "notify softReset (DurationChange (getDuration ad)) ?a3"
  have "position (media (state ?a4)) =
    (currentTime (media (state a)), played (media (state a)),
     (if isNaN (getDuration ad) then Fin 0 else getDuration ad),
     seekableAmount (media (state a)))"
    by (simp add: notify_def handle_DurationChange_listening[OF assms(1)] position_def)
  moreover have "position (media (state (notify softReset Play ?a4))) =
    position (media (state ?a4))"
    by (simp add: notify_def handle_Play_position)
  moreover have "position (media (state (onAdStart softReset (Some ad) a))) =
    position (media (state (notify softReset Play ?a4)))"
    using assms(2)
    by (simp add: onAdStart_def onResized_def set_store_def Let_def position_def)
  ultimately show ?thesis by simp
qed

lemma onAdProgress_position:
  assumes "listening (state a)"
  shows "position (media (state (onAdProgress softReset (Some r) a))) =
    (js_sub (duration (media (state a))) (js_or r (Fin 0)),
     TimeRange (Fin 0) (js_sub (duration (media (state a))) (js_or r (Fin 0))),
     duration (media (state a)), seekableAmount (media (state a)))"
  by (simp add: onAdProgress_def notify_def handle_TimeUpdate_listening[OF assms] position_def
      Let_def)

lemma onAdBuffering_position:
  "position (media (state (onAdBuffering softReset a))) = position (media (state a))"
  by (simp add: onAdBuffering_def notify_def handle_Waiting_position)

lemma adBreak_listening: "listening (state adBreak)"
proof -
  have "listening (state contentAds)"
    using contentAds_media by (simp add: listening_def)
  then have "listening (state (onAdSdkEvent exampleReset seekableAmount
      (AdStart (Some linearAd)) contentAds))"
    by (rule onAdSdkEvent_listening)
  then have l: "listening (state (onAdStart exampleReset (Some linearAd) contentAds))"
    by (simp add: onAdSdkEvent_def)
  have "\<forall>e \<in> set [AdProgress (Some (Fin 20)), AdBuffering, AdProgress (Some (Fin 5))].
      \<not> startsLinear e"
    by (simp add: startsLinear_def)
  from onAdSdkEvents_invariant[OF this l, of exampleReset seekableAmount]
  show ?thesis by (simp only: adBreak_def)
qed

lemma adBreak_media: "position (media (state adBreak)) =
  (Fin 25, TimeRange (Fin 0) (Fin 25), Fin 30, Fin 60)"
proof -
  let ?a1 = "onAdStart exampleReset (Some linearAd) contentAds"
  let ?a2 = "onAdProgress exampleReset (Some (Fin 20)) ?a1"
  let ?a3 = "onAdBuffering exampleReset ?a2"
  let ?a4 = "onAdProgress exampleReset (Some (Fin 5)) ?a3"
  have l0: "listening (state contentAds)"
    using contentAds_media by (simp add: listening_def)
  have l1: "listening (state ?a1)"
    using onAdSdkEvent_listening[OF l0, of exampleReset seekableAmount "AdStart (Some linearAd)"]
    by (simp add: onAdSdkEvent_def)
  have l2: "listening (state ?a2)"
    using onAdSdkEvent_listening[OF l1, of exampleReset seekableAmount
        "AdProgress (Some (Fin 20))"]
    by (simp add: onAdSdkEvent_def)
  have l3: "listening (state ?a3)"
    using onAdSdkEvent_listening[OF l2, of exampleReset seekableAmount AdBuffering]
    by (simp add: onAdSdkEvent_def)
  have p1: "position (media (state ?a1)) = (Fin 42, TimeRange (Fin 0) (Fin 42), Fin 30, Fin 60)"
    using onAdStart_position[OF l0, of linearAd exampleReset]
    by (simp add: linearAd_def isNaN_def contentAds_def contentManager_def)
  have p2: "position (media (state ?a2)) = (Fin 10, TimeRange (Fin 0) (Fin 10), Fin 30, Fin 60)"
    using onAdProgress_position[OF l1, of exampleReset "Fin 20"] p1
    by (simp add: position_def js_or_def truthy_def) (simp add: round_defs)
  have p3: "position (media (state ?a3)) = (Fin 10, TimeRange (Fin 0) (Fin 10), Fin 30, Fin 60)"
    using onAdBuffering_position[of exampleReset ?a2] p2 by simp
  have p4: "position (media (state ?a4)) = (Fin 25, TimeRange (Fin 0) (Fin 25), Fin 30, Fin 60)"
    using onAdProgress_position[OF l3, of exampleReset "Fin 5"] p3
    by (simp add: position_def js_or_def truthy_def) (simp add: round_defs)
  have "adBreak = ?a4"
    by (simp add: adBreak_def onAdSdkEvent_def)
  with p4 show ?thesis by simp
qed

theorem ad_break_restores_position_witness:
  "currentTime (media (state (onAdComplete exampleReset seekableAmount adBreak))) = Fin 42 \<and>
   played (media (state (onAdComplete exampleReset seekableAmount adBreak))) =
     TimeRange (Fin 0) (Fin 42) \<and>
   duration (media (state (onAdComplete exampleReset seekableAmount adBreak))) = Fin 60 \<and>
   onAdSkip exampleReset seekableAmount adBreak =
     onAdComplete exampleReset seekableAmount adBreak"
proof -
  have a: "isLinear linearAd" by (simp add: linearAd_def)
  have b: "\<forall>e \<in> set [AdProgress (Some (Fin 20)), AdBuffering, AdProgress (Some (Fin 5))].
      \<not> startsLinear e"
    by (simp add: startsLinear_def)
  note c = contentAds_media[THEN conjunct2, THEN conjunct2, THEN conjunct2]
  have s: "seekableAmount (media (state adBreak)) = Fin 60"
    using adBreak_media by (simp add: position_def)
  from ad_break_restores_position[OF a b c[THEN conjunct1] c[THEN conjunct2], of exampleReset seekableAmount,
      folded adBreak_def]
    contentAds_media s
  show ?thesis by (simp add: isNaN_def)
qed

text \<open>
  C1 as stated fails: the duration after the ad is the seekable end, 60, and not the 100
  of before the ad.
\<close>

theorem ad_break_duration_counterexample:
  "duration (media (state contentAds)) = Fin 100 \<and>
   duration (media (state (onAdComplete exampleReset seekableAmount adBreak))) = Fin 60 \<and>
   duration (media (state (onAdComplete exampleReset seekableAmount adBreak))) \<noteq>
     duration (media (state contentAds))"
proof -
  have s: "seekableAmount (media (state adBreak)) = Fin 60"
    using adBreak_media by (simp add: position_def)
  have "duration (media (state (onAdComplete exampleReset seekableAmount adBreak))) =
      seekableAmount (media (state adBreak))"
    using onAdComplete_restores[OF adBreak_listening, of exampleReset seekableAmount] s
    by (simp add: isNaN_def)
  with s contentAds_media show ?thesis by simp
qed

end
